theory Spec2Isabelle
  imports Main
begin

section \<open>The TLS certificate live-reload of \<open>src/main.ts\<close>\<close>

text \<open>
  The program is one function, \<open>bootstrap\<close>, which creates the API server and, when TLS
  is switched on, registers two file watchers whose shared callback \<open>scheduleReload\<close>
  debounces the notifications with a 500 ms timer; the timer's callback re-reads the key
  and the certificate and hands them to the server's \<open>setSecureContext\<close>.

  The embedding is state passing over one record. The event loop of the runtime, the
  file system, the console and the server are explicit fields; time is a natural number
  of milliseconds. What the source takes from outside (the runtime, the TLS stack, the
  operating system) is a parameter, collected in the record \<open>world\<close>.
\<close>

subsection \<open>Data\<close>

type_synonym path = string
type_synonym bytes = string

text \<open>A file on disk as \<open>readFileSync\<close> sees it: absent, present but not readable,
  or present with its content (which may be empty).\<close>

datatype file_state = Missing | Unreadable | Content bytes

datatype error =
    ENOENT path
  | EACCES path
  | WatchError path
  | TlsError
  | ListenError
  | NotAFunction

text \<open>The console, one entry per call: which of \<open>console.log\<close>,
  \<open>console.warn\<close>, \<open>console.error\<close> was called, and the pieces of what it
  printed. A template literal is the sequence of its fixed text and its interpolations;
  \<open>Timestamp t\<close> is \<open>new Date().toISOString()\<close> taken at time \<open>t\<close>,
  \<open>Err e\<close> a caught exception passed as an argument (the runtime prints it with its
  stack, over several physical lines).\<close>

datatype level = Log | Warn | Error

datatype part = Text string | Timestamp nat | Err error

type_synonym line = "level \<times> part list"

text \<open>The server behind \<open>app.getHttpServer()\<close>. An HTTPS server holds its active
  credential set, key first.\<close>

datatype server = NoServer | HttpServer | HttpsServer bytes bytes

record env =
  API_PORT :: "string option"
  API_SECURE :: "string option"

text \<open>
  What the program takes from its surroundings:
  \<^item> \<open>cwd\<close>: \<open>process.cwd()\<close>;
  \<^item> \<open>hasSetSecureContext\<close>: whether \<open>typeof server?.setSecureContext === 'function'\<close>
    holds for the server the framework returns (it depends on the runtime);
  \<^item> \<open>accepts key cert\<close>: whether the TLS stack takes the pair; when it does not,
    \<open>setSecureContext\<close> throws and the server keeps the context it had, and the
    creation of an HTTPS server from the pair throws as well (the contract of the library
    calls, which are not code of this repository);
  \<^item> \<open>watchError p\<close>: the exception \<open>fs.watch\<close> throws for \<open>p\<close>, if any;
  \<^item> \<open>listenError\<close>: the error \<open>app.listen\<close> hands to its callback, if any;
  \<^item> \<open>address\<close>: the address it hands over otherwise.
\<close>

record world =
  cwd :: string
  hasSetSecureContext :: bool
  accepts :: "bytes \<Rightarrow> bytes \<Rightarrow> bool"
  watchError :: "path \<Rightarrow> error option"
  listenError :: "error option"
  address :: string

text \<open>
  The state of the process and of the disk.
  \<^item> \<open>now\<close>: the clock, in milliseconds;
  \<^item> \<open>fs\<close>: the files;
  \<^item> \<open>server\<close>: the server and its active credentials;
  \<^item> \<open>reloadTimer\<close>: the variable of that name (line 75), \<open>None\<close> for \<open>null\<close>,
    otherwise the handle of the timer armed last;
  \<^item> \<open>timers\<close>: the timers pending in the event loop, as (handle, due time);
  \<^item> \<open>nextTimer\<close>: the next fresh handle;
  \<^item> \<open>watchers\<close>: the paths with a registered \<open>fs.watch\<close> listener (each listener
    is \<open>scheduleReload\<close>, the only one the program registers);
  \<^item> \<open>console\<close>: the lines printed so far.

  Two fields only record what happened, for the theorems to speak about; the program
  never reads them:
  \<^item> \<open>fired\<close>: the times at which the timer callback (a reload attempt) ran;
  \<^item> \<open>installs\<close>: the calls of \<open>setSecureContext\<close>: key, cert, and whether the
    call returned (\<open>True\<close>) or threw.
\<close>

record state =
  now :: nat
  fs :: "path \<Rightarrow> file_state"
  server :: server
  reloadTimer :: "nat option"
  timers :: "(nat \<times> nat) list"
  nextTimer :: nat
  watchers :: "path list"
  console :: "line list"
  fired :: "nat list"
  installs :: "(bytes \<times> bytes \<times> bool) list"

definition initial :: "nat \<Rightarrow> (path \<Rightarrow> file_state) \<Rightarrow> state" where
  "initial t files =
     \<lparr>now = t, fs = files, server = NoServer, reloadTimer = None, timers = [],
      nextTimer = 0, watchers = [], console = [], fired = [], installs = []\<rparr>"

subsection \<open>The runtime's operations\<close>

definition console_log :: "part list \<Rightarrow> state \<Rightarrow> state" where
  "console_log m s = s\<lparr>console := console s @ [(Log, m)]\<rparr>"

definition console_warn :: "part list \<Rightarrow> state \<Rightarrow> state" where
  "console_warn m s = s\<lparr>console := console s @ [(Warn, m)]\<rparr>"

definition console_error :: "part list \<Rightarrow> state \<Rightarrow> state" where
  "console_error m s = s\<lparr>console := console s @ [(Error, m)]\<rparr>"

text \<open>\<open>readFileSync\<close> throws for a file that is absent or not readable and returns the
  content otherwise, also when the content is empty.\<close>

definition readFileSync :: "state \<Rightarrow> path \<Rightarrow> error + bytes" where
  "readFileSync s p =
     (case fs s p of
        Missing \<Rightarrow> Inl (ENOENT p)
      | Unreadable \<Rightarrow> Inl (EACCES p)
      | Content b \<Rightarrow> Inr b)"

definition watch :: "world \<Rightarrow> path \<Rightarrow> state \<Rightarrow> error + state" where
  "watch w p s =
     (case watchError w p of
        Some e \<Rightarrow> Inl e
      | None \<Rightarrow> Inr (s\<lparr>watchers := watchers s @ [p]\<rparr>))"

definition setTimeout :: "nat \<Rightarrow> state \<Rightarrow> nat \<times> state" where
  "setTimeout delay s =
     (nextTimer s,
      s\<lparr>timers := timers s @ [(nextTimer s, now s + delay)],
        nextTimer := Suc (nextTimer s)\<rparr>)"

definition clearTimeout :: "nat \<Rightarrow> state \<Rightarrow> state" where
  "clearTimeout h s = s\<lparr>timers := filter (\<lambda>(i, d). i \<noteq> h) (timers s)\<rparr>"

text \<open>\<open>server.setSecureContext({ key, cert })\<close>: the swap of the whole pair, or an
  exception that leaves the server as it was.\<close>

definition setSecureContext :: "world \<Rightarrow> bytes \<Rightarrow> bytes \<Rightarrow> state \<Rightarrow> error + state" where
  "setSecureContext w key cert s =
     (case server s of
        HttpsServer k c \<Rightarrow>
          if accepts w key cert then Inr (s\<lparr>server := HttpsServer key cert\<rparr>)
          else Inl TlsError
      | _ \<Rightarrow> Inl NotAFunction)"

subsection \<open>Lines 18 to 31: the flag and the startup options\<close>

text \<open>\<open>toLowerCase\<close> on the letters A to Z; every other byte stays (no character
  outside ASCII lowers to one of the letters of \<open>true\<close>).\<close>

definition lower_char :: "char \<Rightarrow> char" where
  "lower_char c =
     (if 65 \<le> (of_char c :: nat) \<and> (of_char c :: nat) \<le> 90
      then char_of ((of_char c :: nat) + 32) else c)"

definition toLowerCase :: "string \<Rightarrow> string" where
  "toLowerCase v = map lower_char v"

definition secure :: "env \<Rightarrow> bool" where
  "secure e = (case API_SECURE e of None \<Rightarrow> False | Some v \<Rightarrow> toLowerCase v = ''true'')"

definition keyPath :: "world \<Rightarrow> path" where
  "keyPath w = cwd w @ ''/secrets/key.pem''"

definition certPath :: "world \<Rightarrow> path" where
  "certPath w = cwd w @ ''/secrets/cert.pem''"

text \<open>The \<open>options\<close> object: \<open>None\<close> is \<open>{}\<close>, \<open>Some (key, cert)\<close> is
  \<open>{ https: { key, cert } }\<close>. A read that throws ends \<open>bootstrap\<close>.\<close>

definition httpsOptions :: "world \<Rightarrow> env \<Rightarrow> state \<Rightarrow> error + (bytes \<times> bytes) option" where
  "httpsOptions w e s =
     (if secure e then
        (case readFileSync s (keyPath w) of
           Inl err \<Rightarrow> Inl err
         | Inr key \<Rightarrow>
             (case readFileSync s (certPath w) of
                Inl err \<Rightarrow> Inl err
              | Inr cert \<Rightarrow> Inr (Some (key, cert))))
      else Inr None)"

text \<open>Line 33, \<open>NestFactory.create\<close> with \<open>new FastifyAdapter(options)\<close>: without
  https options a plain server; with them an HTTPS server holding the startup pair, or
  an exception when the TLS stack refuses the pair.\<close>

definition create :: "world \<Rightarrow> (bytes \<times> bytes) option \<Rightarrow> state \<Rightarrow> error + state" where
  "create w options s =
     (case options of
        None \<Rightarrow> Inr (s\<lparr>server := HttpServer\<rparr>)
      | Some (key, cert) \<Rightarrow>
          if accepts w key cert then Inr (s\<lparr>server := HttpsServer key cert\<rparr>)
          else Inl TlsError)"

subsection \<open>Lines 77 to 90: \<open>scheduleReload\<close> and the timer's callback\<close>

definition reloadCallback :: "world \<Rightarrow> state \<Rightarrow> state" where
  "reloadCallback w s =
     (let s0 = s\<lparr>fired := fired s @ [now s]\<rparr> in
      case readFileSync s0 (keyPath w) of
        Inl e \<Rightarrow> console_error [Text ''[TLS] Failed to reload certificate:'', Err e] s0
      | Inr key \<Rightarrow>
          (case readFileSync s0 (certPath w) of
             Inl e \<Rightarrow> console_error [Text ''[TLS] Failed to reload certificate:'', Err e] s0
           | Inr cert \<Rightarrow>
               (case setSecureContext w key cert s0 of
                  Inl e \<Rightarrow>
                    console_error [Text ''[TLS] Failed to reload certificate:'', Err e]
                      (s0\<lparr>installs := installs s0 @ [(key, cert, False)]\<rparr>)
                | Inr s1 \<Rightarrow>
                    console_log [Text ''[TLS] Reloaded certificate @ '', Timestamp (now s1)]
                      (s1\<lparr>installs := installs s1 @ [(key, cert, True)]\<rparr>))))"

definition scheduleReload :: "state \<Rightarrow> state" where
  "scheduleReload s =
     (let s1 = (case reloadTimer s of Some h \<Rightarrow> clearTimeout h s | None \<Rightarrow> s);
          (h, s2) = setTimeout 500 s1
      in s2\<lparr>reloadTimer := Some h\<rparr>)"

subsection \<open>Lines 69 to 103 and the whole of \<open>bootstrap\<close>\<close>

definition liveReload :: "world \<Rightarrow> state \<Rightarrow> state" where
  "liveReload w s =
     (if hasSetSecureContext w then
        (case watch w (keyPath w) s of
           Inl e \<Rightarrow> console_error [Text ''[TLS] Failed to watch cert/key files:'', Err e] s
         | Inr s1 \<Rightarrow>
             (case watch w (certPath w) s1 of
                Inl e \<Rightarrow> console_error [Text ''[TLS] Failed to watch cert/key files:'', Err e] s1
              | Inr s2 \<Rightarrow> console_log [Text ''[TLS] Watching cert/key for changes''] s2))
      else console_warn [Text ''[TLS] Dynamic cert reload not available (non-HTTPS server?)''] s)"

text \<open>How \<open>bootstrap\<close> ends: it returned at the guard of line 13, it ran to its end with
  the server listening, the listen callback called \<open>process.exit(1)\<close>, or an exception
  of the startup reads or of the server's creation left it (the promise is rejected).\<close>

datatype outcome = Returned | Listening | Exited nat | Rejected error

definition bootstrap :: "world \<Rightarrow> env \<Rightarrow> state \<Rightarrow> outcome \<times> state" where
  "bootstrap w e s =
     (if API_PORT e = None then
        (Returned,
         console_error
           [Text ''It appears your environment is not configured, create and populate an .env file.''] s)
      else
        (case httpsOptions w e s of
           Inl err \<Rightarrow> (Rejected err, s)
         | Inr options \<Rightarrow>
             (case create w options s of
                Inl err \<Rightarrow> (Rejected err, s)
              | Inr s1 \<Rightarrow>
                  (case listenError w of
                     Some err \<Rightarrow> (Exited 1, console_error [Err err] s1)
                   | None \<Rightarrow>
                       (let s2 = console_log [Text ''API listening on '', Text (address w)] s1
                        in (Listening, if secure e then liveReload w s2 else s2))))))"

subsection \<open>The event loop\<close>

text \<open>
  What reaches the process after \<open>bootstrap\<close>: a raw notification of the operating system
  for a path, or a write that changes a file and raises one notification for it. A
  notification calls the listener of every watcher registered on the path.
\<close>

datatype event = Notify path | Write path file_state

definition notify :: "path \<Rightarrow> state \<Rightarrow> state" where
  "notify p s = fold (\<lambda>_. scheduleReload) (filter (\<lambda>q. q = p) (watchers s)) s"

fun deliver :: "event \<Rightarrow> state \<Rightarrow> state" where
  "deliver (Notify p) s = notify p s"
| "deliver (Write p f) s = notify p (s\<lparr>fs := (fs s)(p := f)\<rparr>)"

text \<open>
  The clock moves to \<open>t\<close>: every pending timer due at \<open>t\<close> or before leaves the event
  loop and its callback runs at its due time, the earliest first. The only callback the
  program ever passes to \<open>setTimeout\<close> is the reload of lines 80 to 89. A timer due at
  the very millisecond of an event runs before that event is delivered.
\<close>

definition advance :: "world \<Rightarrow> nat \<Rightarrow> state \<Rightarrow> state" where
  "advance w t s =
     (let due = filter (\<lambda>(h, d). d \<le> t) (timers s);
          rest = filter (\<lambda>(h, d). \<not> d \<le> t) (timers s);
          s1 = fold (\<lambda>(h, d) s'. reloadCallback w (s'\<lparr>now := max (now s') d\<rparr>))
                 (sort_key snd due) (s\<lparr>timers := rest\<rparr>)
      in s1\<lparr>now := max (now s1) t\<rparr>)"

fun run :: "world \<Rightarrow> (nat \<times> event) list \<Rightarrow> state \<Rightarrow> state" where
  "run w [] s = s"
| "run w ((t, ev) # evs) s = run w evs (deliver ev (advance w t s))"

text \<open>A burst: timestamps in order, each less than 500 ms after the one before.\<close>

fun burst :: "nat list \<Rightarrow> bool" where
  "burst [] = True"
| "burst [t] = True"
| "burst (t # u # ts) = (t \<le> u \<and> u < t + 500 \<and> burst (u # ts))"

text \<open>An event is watched in a state when a watcher is registered on its path.\<close>

fun event_path :: "event \<Rightarrow> path" where
  "event_path (Notify p) = p"
| "event_path (Write p f) = p"

definition watched :: "state \<Rightarrow> event \<Rightarrow> bool" where
  "watched s ev = (event_path ev \<in> set (watchers s))"

text \<open>The debounce invariant: no timer is pending, or exactly one is and
  \<open>reloadTimer\<close> holds its handle.\<close>

definition quiet :: "state \<Rightarrow> bool" where
  "quiet s = (timers s = [] \<or> (\<exists>h d. timers s = [(h, d)] \<and> reloadTimer s = Some h))"

subsection \<open>A concrete run, for the closed instances of the theorems\<close>

definition example_world :: world where
  "example_world =
     \<lparr>cwd = ''/srv'', hasSetSecureContext = True,
      accepts = (\<lambda>key cert. key \<noteq> [] \<and> cert \<noteq> []),
      watchError = (\<lambda>p. None), listenError = None, address = ''0.0.0.0:3334''\<rparr>"

definition example_env :: env where
  "example_env = \<lparr>API_PORT = Some ''3334'', API_SECURE = Some ''TRUE''\<rparr>"

definition example_files :: "path \<Rightarrow> file_state" where
  "example_files =
     (\<lambda>p. Missing)(''/srv/secrets/key.pem'' := Content ''K0'', ''/srv/secrets/cert.pem'' := Content ''C0'')"

definition example_state :: state where
  "example_state = snd (bootstrap example_world example_env (initial 0 example_files))"

text \<open>An endless stream of notifications for the key file, 499 ms apart.\<close>

definition example_stream :: "nat \<Rightarrow> nat \<times> event" where
  "example_stream i = (1000 + 499 * i, Notify ''/srv/secrets/key.pem'')"

text \<open>The example's world on a runtime whose server has no \<open>setSecureContext\<close>.\<close>

definition example_world_no_reload :: world where
  "example_world_no_reload = example_world\<lparr>hasSetSecureContext := False\<rparr>"

text \<open>The example's world where the watch on the certificate cannot be registered, and
  one where the watch on the key cannot.\<close>

definition example_world_cert_unwatchable :: world where
  "example_world_cert_unwatchable =
     example_world\<lparr>watchError :=
       (\<lambda>p. if p = ''/srv/secrets/cert.pem'' then Some (WatchError p) else None)\<rparr>"

definition example_world_key_unwatchable :: world where
  "example_world_key_unwatchable =
     example_world\<lparr>watchError :=
       (\<lambda>p. if p = ''/srv/secrets/key.pem'' then Some (WatchError p) else None)\<rparr>"

text \<open>An environment with \<open>API_SECURE=true\<close> and no \<open>API_PORT\<close>, and one with
  \<open>API_SECURE=yes\<close>.\<close>

definition example_env_no_port :: env where
  "example_env_no_port = \<lparr>API_PORT = None, API_SECURE = Some ''true''\<rparr>"

definition example_env_insecure :: env where
  "example_env_insecure = \<lparr>API_PORT = Some ''3334'', API_SECURE = Some ''yes''\<rparr>"

text \<open>The pairs that \<open>setSecureContext\<close> took, oldest first, and the server that should
  be active given the one created at startup: the startup server while no pair was taken,
  otherwise an HTTPS server holding the pair taken last.\<close>

definition installed :: "state \<Rightarrow> (bytes \<times> bytes) list" where
  "installed s = map (\<lambda>(key, cert, ok). (key, cert)) (filter (\<lambda>(key, cert, ok). ok) (installs s))"

definition expectedServer :: "server \<Rightarrow> state \<Rightarrow> server" where
  "expectedServer startup s =
     (if installed s = [] then startup
      else HttpsServer (fst (last (installed s))) (snd (last (installed s))))"

text \<open>Whether the \<open>try\<close> block of lines 81 to 85 runs to its end: both reads return and
  \<open>setSecureContext\<close> returns.\<close>

definition reloadSucceeds :: "world \<Rightarrow> state \<Rightarrow> bool" where
  "reloadSucceeds w s =
     (case readFileSync s (keyPath w) of
        Inl e \<Rightarrow> False
      | Inr key \<Rightarrow>
          (case readFileSync s (certPath w) of
             Inl e \<Rightarrow> False
           | Inr cert \<Rightarrow>
               (case setSecureContext w key cert s of Inl e \<Rightarrow> False | Inr s' \<Rightarrow> True)))"

text \<open>A console line includes a timestamp when one of its pieces is one.\<close>

fun isTimestamp :: "part \<Rightarrow> bool" where
  "isTimestamp (Timestamp t) = True"
| "isTimestamp (Text v) = False"
| "isTimestamp (Err e) = False"

definition hasTimestamp :: "line \<Rightarrow> bool" where
  "hasTimestamp l = list_ex isTimestamp (snd l)"

text \<open>The example after startup with the certificate deleted, with the key emptied, and
  with both files rewritten.\<close>

definition example_state_cert_missing :: state where
  "example_state_cert_missing =
     example_state\<lparr>fs := example_files(''/srv/secrets/cert.pem'' := Missing)\<rparr>"

definition example_state_empty_key :: state where
  "example_state_empty_key =
     example_state\<lparr>fs := example_files(''/srv/secrets/key.pem'' := Content [])\<rparr>"

definition example_state_rotated :: state where
  "example_state_rotated =
     example_state\<lparr>fs := example_files(''/srv/secrets/key.pem'' := Content ''K1'',
                                         ''/srv/secrets/cert.pem'' := Content ''C1'')\<rparr>"

section \<open>Lemmas about the operations\<close>


lemma console_fields:
  "console (console_log m s) = console s @ [(Log, m)]"
  "console (console_warn m s) = console s @ [(Warn, m)]"
  "console (console_error m s) = console s @ [(Error, m)]"
  by (simp_all add: console_log_def console_warn_def console_error_def)

lemma console_log_other:
  "now (console_log m s) = now s" "fs (console_log m s) = fs s"
  "server (console_log m s) = server s" "reloadTimer (console_log m s) = reloadTimer s"
  "timers (console_log m s) = timers s" "nextTimer (console_log m s) = nextTimer s"
  "watchers (console_log m s) = watchers s" "fired (console_log m s) = fired s"
  "installs (console_log m s) = installs s"
  by (simp_all add: console_log_def)

lemma console_warn_other:
  "now (console_warn m s) = now s" "fs (console_warn m s) = fs s"
  "server (console_warn m s) = server s" "reloadTimer (console_warn m s) = reloadTimer s"
  "timers (console_warn m s) = timers s" "nextTimer (console_warn m s) = nextTimer s"
  "watchers (console_warn m s) = watchers s" "fired (console_warn m s) = fired s"
  "installs (console_warn m s) = installs s"
  by (simp_all add: console_warn_def)

lemma console_error_other:
  "now (console_error m s) = now s" "fs (console_error m s) = fs s"
  "server (console_error m s) = server s" "reloadTimer (console_error m s) = reloadTimer s"
  "timers (console_error m s) = timers s" "nextTimer (console_error m s) = nextTimer s"
  "watchers (console_error m s) = watchers s" "fired (console_error m s) = fired s"
  "installs (console_error m s) = installs s"
  by (simp_all add: console_error_def)

lemmas console_simps = console_fields console_log_other console_warn_other console_error_other

lemma reloadCallback_frame:
  "now (reloadCallback w s) = now s" "fs (reloadCallback w s) = fs s"
  "reloadTimer (reloadCallback w s) = reloadTimer s"
  "timers (reloadCallback w s) = timers s" "nextTimer (reloadCallback w s) = nextTimer s"
  "watchers (reloadCallback w s) = watchers s"
  "fired (reloadCallback w s) = fired s @ [now s]"
  by (simp_all add: reloadCallback_def Let_def setSecureContext_def console_simps
      split: sum.splits server.splits)

lemma scheduleReload_frame:
  "now (scheduleReload s) = now s" "fs (scheduleReload s) = fs s"
  "server (scheduleReload s) = server s" "watchers (scheduleReload s) = watchers s"
  "console (scheduleReload s) = console s" "fired (scheduleReload s) = fired s"
  "installs (scheduleReload s) = installs s"
  by (simp_all add: scheduleReload_def Let_def setTimeout_def clearTimeout_def split: option.splits)

lemma scheduleReload_arms:
  assumes "timers s = [] \<or> (\<exists>h d. timers s = [(h, d)] \<and> reloadTimer s = Some h)"
  shows "timers (scheduleReload s) = [(nextTimer s, now s + 500)]"
    and "reloadTimer (scheduleReload s) = Some (nextTimer s)"
  using assms
  by (auto simp add: scheduleReload_def Let_def setTimeout_def clearTimeout_def split: option.splits)


lemma fold_scheduleReload_frame:
  "now (fold (\<lambda>_. scheduleReload) xs s) = now s"
  "fs (fold (\<lambda>_. scheduleReload) xs s) = fs s"
  "server (fold (\<lambda>_. scheduleReload) xs s) = server s"
  "watchers (fold (\<lambda>_. scheduleReload) xs s) = watchers s"
  "console (fold (\<lambda>_. scheduleReload) xs s) = console s"
  "fired (fold (\<lambda>_. scheduleReload) xs s) = fired s"
  "installs (fold (\<lambda>_. scheduleReload) xs s) = installs s"
  by (induction xs arbitrary: s; simp add: scheduleReload_frame)+

lemma notify_frame:
  "now (notify p s) = now s" "fs (notify p s) = fs s"
  "server (notify p s) = server s" "watchers (notify p s) = watchers s"
  "console (notify p s) = console s" "fired (notify p s) = fired s"
  "installs (notify p s) = installs s"
  by (simp_all add: notify_def fold_scheduleReload_frame)



lemma fold_scheduleReload_arms:
  assumes "quiet s" "xs \<noteq> []"
  shows "\<exists>h. timers (fold (\<lambda>_. scheduleReload) xs s) = [(h, now s + 500)] \<and>
             reloadTimer (fold (\<lambda>_. scheduleReload) xs s) = Some h"
  using assms
proof (induction xs arbitrary: s)
  case Nil
  then show ?case by simp
next
  case (Cons x xs)
  have q: "timers s = [] \<or> (\<exists>h d. timers s = [(h, d)] \<and> reloadTimer s = Some h)"
    using Cons.prems(1) by (simp add: quiet_def)
  have a: "timers (scheduleReload s) = [(nextTimer s, now s + 500)]"
    and b: "reloadTimer (scheduleReload s) = Some (nextTimer s)"
    using scheduleReload_arms[OF q] by simp_all
  show ?case
  proof (cases "xs = []")
    case True
    then show ?thesis using a b by simp
  next
    case False
    have "quiet (scheduleReload s)" using a b by (simp add: quiet_def)
    from Cons.IH[OF this False] show ?thesis by (simp add: scheduleReload_frame)
  qed
qed

lemma notify_arms:
  assumes "quiet s" "p \<in> set (watchers s)"
  shows "\<exists>h. timers (notify p s) = [(h, now s + 500)] \<and> reloadTimer (notify p s) = Some h"
proof -
  have "filter (\<lambda>q. q = p) (watchers s) \<noteq> []"
    using assms(2) by (auto simp add: filter_empty_conv)
  from fold_scheduleReload_arms[OF assms(1) this] show ?thesis by (simp add: notify_def)
qed

lemma deliver_frame:
  "now (deliver ev s) = now s"
  "server (deliver ev s) = server s" "watchers (deliver ev s) = watchers s"
  "console (deliver ev s) = console s" "fired (deliver ev s) = fired s"
  "installs (deliver ev s) = installs s"
  by (cases ev; simp add: notify_frame)+

lemma deliver_arms:
  assumes "quiet s" "watched s ev"
  shows "\<exists>h. timers (deliver ev s) = [(h, now s + 500)] \<and> reloadTimer (deliver ev s) = Some h"
proof (cases ev)
  case (Notify p)
  then show ?thesis using notify_arms[OF assms(1), of p] assms(2) by (simp add: watched_def)
next
  case (Write p f)
  have "quiet (s\<lparr>fs := (fs s)(p := f)\<rparr>)" using assms(1) by (simp add: quiet_def)
  from notify_arms[OF this, of p] Write assms(2) show ?thesis by (simp add: watched_def)
qed

lemma advance_idle:
  "\<forall>(h, d) \<in> set (timers s). t < d \<Longrightarrow> advance w t s = s\<lparr>now := max (now s) t\<rparr>"
proof -
  assume a: "\<forall>(h, d) \<in> set (timers s). t < d"
  have 1: "filter (\<lambda>(h, d). d \<le> t) (timers s) = []"
    using a by (auto simp add: filter_empty_conv)
  have 2: "filter (\<lambda>(h, d). \<not> d \<le> t) (timers s) = timers s"
    using a by (auto simp add: filter_id_conv)
  show ?thesis by (simp add: advance_def 1 2)
qed

lemma advance_due:
  assumes "timers s = [(h, d)]" "d \<le> t"
  shows "advance w t s =
           (reloadCallback w (s\<lparr>timers := [], now := max (now s) d\<rparr>))\<lparr>now := max (max (now s) d) t\<rparr>"
  using assms by (simp add: advance_def reloadCallback_frame)


lemma run_burst:
  assumes "evs \<noteq> []" "burst (map fst evs)" "\<forall>x \<in> set evs. watched s (snd x)"
    "now s \<le> fst (hd evs)"
    "timers s = [] \<or> (\<exists>h d. timers s = [(h, d)] \<and> reloadTimer s = Some h \<and> fst (hd evs) < d)"
  shows "fired (run w evs s) = fired s \<and> installs (run w evs s) = installs s \<and>
         server (run w evs s) = server s \<and> console (run w evs s) = console s \<and>
         watchers (run w evs s) = watchers s \<and> now (run w evs s) = fst (last evs) \<and>
         (\<exists>h. timers (run w evs s) = [(h, fst (last evs) + 500)] \<and>
              reloadTimer (run w evs s) = Some h)"
  using assms
proof (induction evs arbitrary: s)
  case Nil
  then show ?case by simp
next
  case (Cons x evs)
  obtain t ev where x: "x = (t, ev)" by (cases x)
  have late: "\<forall>(h, d) \<in> set (timers s). t < d"
    using Cons.prems(5) x by auto
  have nt: "now s \<le> t" using Cons.prems(4) x by simp
  define s1 where "s1 = advance w t s"
  have s1: "s1 = s\<lparr>now := t\<rparr>"
    using advance_idle[OF late, of w] nt by (simp add: s1_def max_def)
  have q1: "quiet s1" using Cons.prems(5) by (auto simp add: s1 quiet_def)
  have w1: "watched s1 ev" using Cons.prems(3) x by (simp add: s1 watched_def)
  define s2 where "s2 = deliver ev s1"
  obtain h where h: "timers s2 = [(h, t + 500)]" "reloadTimer s2 = Some h"
    using deliver_arms[OF q1 w1] by (auto simp add: s2_def s1)
  have frame: "fired s2 = fired s" "installs s2 = installs s" "server s2 = server s"
    "console s2 = console s" "watchers s2 = watchers s" "now s2 = t"
    by (simp_all add: s2_def deliver_frame s1)
  have r: "run w (x # evs) s = run w evs s2" by (simp add: x s2_def s1_def)
  show ?case
  proof (cases "evs = []")
    case True
    then show ?thesis using h frame r x by simp
  next
    case False
    then obtain y ys where evs: "evs = y # ys" by (cases evs) auto
    have b: "t \<le> fst y" "fst y < t + 500" "burst (map fst evs)"
      using Cons.prems(2) by (simp_all add: x evs)
    have wa: "\<forall>x \<in> set evs. watched s2 (snd x)"
      using Cons.prems(3) frame(5) by (simp add: watched_def)
    have n2: "now s2 \<le> fst (hd evs)" using b(1) frame(6) by (simp add: evs)
    have t2: "timers s2 = [] \<or> (\<exists>h d. timers s2 = [(h, d)] \<and> reloadTimer s2 = Some h \<and> fst (hd evs) < d)"
      using h b(2) by (simp add: evs)
    from Cons.IH[OF False b(3) wa n2 t2] show ?thesis
      using r frame False by simp
  qed
qed

lemma advance_fires:
  assumes "timers s = [(h, d)]" "d \<le> t" "now s \<le> d"
  shows "fired (advance w t s) = fired s @ [d]" "timers (advance w t s) = []"
    "now (advance w t s) = t" "watchers (advance w t s) = watchers s"
    "reloadTimer (advance w t s) = reloadTimer s"
  using assms by (simp_all add: advance_due[OF assms(1,2)] reloadCallback_frame max_def)










lemma secure_example: "secure example_env"
  unfolding secure_def example_env_def by code_simp

lemma port_example: "API_PORT example_env = Some ''3334''"
  by (simp add: example_env_def)

lemma example_state_eq:
  "example_state =
     \<lparr>now = 0, fs = example_files, server = HttpsServer ''K0'' ''C0'', reloadTimer = None,
      timers = [], nextTimer = 0,
      watchers = [''/srv/secrets/key.pem'', ''/srv/secrets/cert.pem''],
      console = [(Log, [Text ''API listening on '', Text ''0.0.0.0:3334'']),
                 (Log, [Text ''[TLS] Watching cert/key for changes''])],
      fired = [], installs = []\<rparr>"
  using secure_example port_example
  by (simp add: example_state_def bootstrap_def httpsOptions_def readFileSync_def
      keyPath_def certPath_def create_def liveReload_def watch_def console_log_def
      initial_def example_world_def example_files_def)

lemma example_outcome:
  "fst (bootstrap example_world example_env (initial 0 example_files)) = Listening"
  using secure_example port_example
  by (simp add: bootstrap_def httpsOptions_def readFileSync_def
      keyPath_def certPath_def create_def liveReload_def watch_def console_log_def
      initial_def example_world_def example_files_def)

lemma burst_map_upt:
  assumes "\<forall>i. f i \<le> f (Suc i) \<and> f (Suc i) < f i + 500"
  shows "burst (map f [m..<n])"
proof (induction "n - m" arbitrary: m)
  case 0
  then show ?case by simp
next
  case (Suc k)
  then have mn: "m < n" by simp
  show ?case
  proof (cases "Suc m < n")
    case True
    have IH: "burst (map f [Suc m..<n])" using Suc by simp
    have "[m..<n] = m # Suc m # [Suc (Suc m)..<n]"
      using True by (simp add: upt_conv_Cons)
    moreover have "[Suc m..<n] = Suc m # [Suc (Suc m)..<n]"
      using True by (simp add: upt_conv_Cons)
    ultimately show ?thesis using IH assms by simp
  next
    case False
    then have "[m..<n] = [m]" using mn by (simp add: upt_conv_Cons)
    then show ?thesis by simp
  qed
qed

lemma debounce_core:
  assumes "evs \<noteq> []" and "burst (map fst evs)"
    and "\<forall>x \<in> set evs. watched s (snd x)"
    and "now s \<le> fst (hd evs)" and "timers s = []"
  shows "fired (run w evs s) = fired s"
    and "\<exists>h. timers (run w evs s) = [(h, fst (last evs) + 500)] \<and>
              reloadTimer (run w evs s) = Some h"
    and "\<forall>T < fst (last evs) + 500. fired (advance w T (run w evs s)) = fired s"
proof -
  let ?r = "run w evs s"
  have pre: "timers s = [] \<or>
      (\<exists>h d. timers s = [(h, d)] \<and> reloadTimer s = Some h \<and> fst (hd evs) < d)"
    using assms(5) by simp
  from run_burst[OF assms(1) assms(2) assms(3) assms(4) pre, of w]
  obtain h where f: "fired ?r = fired s"
    and t: "timers ?r = [(h, fst (last evs) + 500)]" and r: "reloadTimer ?r = Some h"
    by auto
  show "fired ?r = fired s" by (rule f)
  show "\<exists>h. timers ?r = [(h, fst (last evs) + 500)] \<and> reloadTimer ?r = Some h"
    using t r by simp
  show "\<forall>T < fst (last evs) + 500. fired (advance w T ?r) = fired s"
  proof (intro allI impI)
    fix T assume "T < fst (last evs) + 500"
    then have "\<forall>(h, d) \<in> set (timers ?r). T < d" using t by simp
    from advance_idle[OF this, of w] show "fired (advance w T ?r) = fired s"
      using f by simp
  qed
qed

lemma advance_no_timers: "timers s = [] \<Longrightarrow> advance w t s = s\<lparr>now := max (now s) t\<rparr>"
  by (simp add: advance_def)

lemma deliver_no_watchers:
  "watchers s = [] \<Longrightarrow>
   deliver ev s = (case ev of Notify p \<Rightarrow> s | Write p f \<Rightarrow> s\<lparr>fs := (fs s)(p := f)\<rparr>)"
  by (cases ev) (simp_all add: notify_def)

lemma run_inert:
  assumes "watchers s = []" "timers s = []"
  shows "fired (run w evs s) = fired s \<and> installs (run w evs s) = installs s \<and>
         server (run w evs s) = server s \<and> console (run w evs s) = console s \<and>
         watchers (run w evs s) = [] \<and> timers (run w evs s) = []"
  using assms
proof (induction evs arbitrary: s)
  case Nil
  then show ?case by simp
next
  case (Cons x evs)
  obtain t ev where x: "x = (t, ev)" by (cases x)
  define s' where "s' = deliver ev (advance w t s)"
  have s': "fired s' = fired s" "installs s' = installs s" "server s' = server s"
    "console s' = console s" "watchers s' = []" "timers s' = []"
    using Cons.prems
    by (simp_all add: s'_def advance_no_timers deliver_no_watchers split: event.splits)
  from Cons.IH[OF s'(5) s'(6)] s' show ?case by (simp add: x s'_def)
qed

lemma inert:
  assumes "watchers s = []" "timers s = []"
  shows "fired (advance w T (run w evs s)) = fired s"
    "installs (advance w T (run w evs s)) = installs s"
    "server (advance w T (run w evs s)) = server s"
    "console (advance w T (run w evs s)) = console s"
    "watchers (advance w T (run w evs s)) = []"
    "timers (advance w T (run w evs s)) = []"
  using run_inert[OF assms, of w evs] by (simp_all add: advance_no_timers)

lemma liveReload_frame:
  "now (liveReload w s) = now s" "fs (liveReload w s) = fs s"
  "server (liveReload w s) = server s" "reloadTimer (liveReload w s) = reloadTimer s"
  "timers (liveReload w s) = timers s" "nextTimer (liveReload w s) = nextTimer s"
  "fired (liveReload w s) = fired s" "installs (liveReload w s) = installs s"
  by (simp_all add: liveReload_def watch_def console_simps split: option.splits)

lemma liveReload_unsupported:
  "\<not> hasSetSecureContext w \<Longrightarrow>
   liveReload w s =
     console_warn [Text ''[TLS] Dynamic cert reload not available (non-HTTPS server?)''] s"
  by (simp add: liveReload_def)

lemma bootstrap_unconfigured:
  "API_PORT e = None \<Longrightarrow>
   bootstrap w e s =
     (Returned,
      console_error
        [Text ''It appears your environment is not configured, create and populate an .env file.''] s)"
  by (simp add: bootstrap_def)

lemma bootstrap_insecure:
  "API_PORT e \<noteq> None \<Longrightarrow> \<not> secure e \<Longrightarrow>
   bootstrap w e s =
     (case listenError w of
        Some err \<Rightarrow> (Exited 1, console_error [Err err] (s\<lparr>server := HttpServer\<rparr>))
      | None \<Rightarrow>
          (Listening,
           console_log [Text ''API listening on '', Text (address w)] (s\<lparr>server := HttpServer\<rparr>)))"
  by (simp add: bootstrap_def httpsOptions_def create_def split: option.splits)

lemma bootstrap_secure_listening:
  assumes "bootstrap w e s = (Listening, s')" "secure e"
  shows "\<exists>key cert. fs s (keyPath w) = Content key \<and> fs s (certPath w) = Content cert \<and>
     accepts w key cert \<and>
     s' = liveReload w
            (console_log [Text ''API listening on '', Text (address w)]
               (s\<lparr>server := HttpsServer key cert\<rparr>))"
  using assms
  by (auto simp add: bootstrap_def httpsOptions_def create_def readFileSync_def Let_def
      split: if_splits option.splits sum.splits file_state.splits)

lemma bootstrap_secure_ok:
  assumes "API_PORT e \<noteq> None" "secure e" "listenError w = None"
    "fs s (keyPath w) = Content key" "fs s (certPath w) = Content cert"
    "accepts w key cert"
  shows "bootstrap w e s =
     (Listening,
      liveReload w
        (console_log [Text ''API listening on '', Text (address w)]
           (s\<lparr>server := HttpsServer key cert\<rparr>)))"
  using assms
  by (simp add: bootstrap_def httpsOptions_def create_def readFileSync_def)

lemma example_cert_unwatchable_state:
  "bootstrap example_world_cert_unwatchable example_env (initial 0 example_files) =
     (Listening,
      \<lparr>now = 0, fs = example_files, server = HttpsServer ''K0'' ''C0'', reloadTimer = None,
       timers = [], nextTimer = 0, watchers = [''/srv/secrets/key.pem''],
       console = [(Log, [Text ''API listening on '', Text ''0.0.0.0:3334'']),
                  (Error, [Text ''[TLS] Failed to watch cert/key files:'',
                           Err (WatchError ''/srv/secrets/cert.pem'')])],
       fired = [], installs = []\<rparr>)"
  using secure_example port_example
  by (simp add: bootstrap_def httpsOptions_def readFileSync_def
      keyPath_def certPath_def create_def liveReload_def watch_def console_log_def
      console_error_def initial_def example_world_cert_unwatchable_def example_world_def
      example_files_def)

lemma secure_iff: "secure e \<longleftrightarrow> (\<exists>v. API_SECURE e = Some v \<and> toLowerCase v = ''true'')"
  by (simp add: secure_def split: option.splits)

lemma reloadCallback_keeps_expected:
  "server s = expectedServer srv s \<Longrightarrow>
   server (reloadCallback w s) = expectedServer srv (reloadCallback w s)"
  by (auto simp add: reloadCallback_def Let_def setSecureContext_def console_simps
      expectedServer_def installed_def split: sum.splits server.splits if_splits)

lemma fire_keeps_expected:
  "server s = expectedServer srv s \<Longrightarrow>
   server (fold (\<lambda>(h, d) s'. reloadCallback w (s'\<lparr>now := max (now s') d\<rparr>)) xs s) =
   expectedServer srv (fold (\<lambda>(h, d) s'. reloadCallback w (s'\<lparr>now := max (now s') d\<rparr>)) xs s)"
proof (induction xs arbitrary: s)
  case Nil
  then show ?case by simp
next
  case (Cons x xs)
  obtain h d where x: "x = (h, d)" by (cases x)
  have "server (s\<lparr>now := max (now s) d\<rparr>) = expectedServer srv (s\<lparr>now := max (now s) d\<rparr>)"
    using Cons.prems by (simp add: expectedServer_def installed_def)
  from Cons.IH[OF reloadCallback_keeps_expected[OF this]] show ?case by (simp add: x)
qed

lemma advance_keeps_expected:
  assumes "server s = expectedServer srv s"
  shows "server (advance w t s) = expectedServer srv (advance w t s)"
proof -
  let ?rest = "filter (\<lambda>(h, d). \<not> d \<le> t) (timers s)"
  let ?due = "sort_key snd (filter (\<lambda>(h, d). d \<le> t) (timers s))"
  let ?s1 = "fold (\<lambda>(h, d) s'. reloadCallback w (s'\<lparr>now := max (now s') d\<rparr>)) ?due
               (s\<lparr>timers := ?rest\<rparr>)"
  have "server (s\<lparr>timers := ?rest\<rparr>) = expectedServer srv (s\<lparr>timers := ?rest\<rparr>)"
    using assms by (simp add: expectedServer_def installed_def)
  from fire_keeps_expected[OF this, of w ?due]
  have "server ?s1 = expectedServer srv ?s1" .
  then show ?thesis by (simp add: advance_def Let_def expectedServer_def installed_def)
qed

lemma deliver_keeps_expected:
  "server s = expectedServer srv s \<Longrightarrow> server (deliver ev s) = expectedServer srv (deliver ev s)"
  by (simp add: deliver_frame expectedServer_def installed_def)

lemma run_keeps_expected:
  "server s = expectedServer srv s \<Longrightarrow> server (run w evs s) = expectedServer srv (run w evs s)"
proof (induction evs arbitrary: s)
  case Nil
  then show ?case by simp
next
  case (Cons x evs)
  obtain t ev where x: "x = (t, ev)" by (cases x)
  from Cons.IH[OF deliver_keeps_expected[OF advance_keeps_expected[OF Cons.prems]]]
  show ?case by (simp add: x)
qed

lemma bootstrap_installs: "installs (snd (bootstrap w e (initial t files))) = []"
  by (simp add: bootstrap_def httpsOptions_def create_def Let_def console_simps
      liveReload_frame initial_def split: option.splits sum.splits)

lemma reloadCallback_read_fails:
  assumes "readFileSync s (keyPath w) = Inl err \<or> readFileSync s (certPath w) = Inl err"
  shows "server (reloadCallback w s) = server s" "installs (reloadCallback w s) = installs s"
    "\<exists>err'. console (reloadCallback w s) =
        console s @ [(Error, [Text ''[TLS] Failed to reload certificate:'', Err err'])]"
  using assms
  by (auto simp add: reloadCallback_def Let_def readFileSync_def console_simps
      split: sum.splits file_state.splits)

lemma reloadCallback_install_fails:
  assumes "readFileSync s (keyPath w) = Inr key" "readFileSync s (certPath w) = Inr cert"
    "setSecureContext w key cert s = Inl err"
  shows "server (reloadCallback w s) = server s"
    "installs (reloadCallback w s) = installs s @ [(key, cert, False)]"
    "console (reloadCallback w s) =
        console s @ [(Error, [Text ''[TLS] Failed to reload certificate:'', Err err])]"
  using assms
  by (auto simp add: reloadCallback_def Let_def readFileSync_def setSecureContext_def
      console_simps split: sum.splits file_state.splits server.splits if_splits)

lemma reloadCallback_succeeds:
  assumes "readFileSync s (keyPath w) = Inr key" "readFileSync s (certPath w) = Inr cert"
    "setSecureContext w key cert s = Inr s'"
  shows "server (reloadCallback w s) = HttpsServer key cert"
    "installs (reloadCallback w s) = installs s @ [(key, cert, True)]"
    "console (reloadCallback w s) =
        console s @ [(Log, [Text ''[TLS] Reloaded certificate @ '', Timestamp (now s)])]"
  using assms
  by (auto simp add: reloadCallback_def Let_def readFileSync_def setSecureContext_def
      console_simps split: sum.splits file_state.splits server.splits if_splits)

lemma reach_invariant:
  assumes rc: "\<And>s. P s \<Longrightarrow> P (reloadCallback w s)"
    and nw: "\<And>s n. P s \<Longrightarrow> P (s\<lparr>now := n\<rparr>)"
    and tm: "\<And>s ts. P s \<Longrightarrow> P (s\<lparr>timers := ts\<rparr>)"
    and dl: "\<And>s ev. P s \<Longrightarrow> P (deliver ev s)"
    and init: "P s"
  shows "P (advance w T (run w evs s))"
proof -
  have fire: "P s \<Longrightarrow>
      P (fold (\<lambda>(h, d) s'. reloadCallback w (s'\<lparr>now := max (now s') d\<rparr>)) xs s)" for xs s
  proof (induction xs arbitrary: s)
    case Nil
    then show ?case by simp
  next
    case (Cons x xs)
    obtain h d where x: "x = (h, d)" by (cases x)
    from Cons.IH[OF rc[OF nw[OF Cons.prems, of "max (now s) d"]]] show ?case by (simp add: x)
  qed
  have adv: "P s \<Longrightarrow> P (advance w t s)" for t s
    unfolding advance_def Let_def by (intro nw fire tm)
  have "P s \<Longrightarrow> P (run w evs s)" for s
  proof (induction evs arbitrary: s)
    case Nil
    then show ?case by simp
  next
    case (Cons x evs)
    obtain t ev where x: "x = (t, ev)" by (cases x)
    from Cons.IH[OF dl[OF adv[OF Cons.prems]]] show ?case by (simp add: x)
  qed
  from adv[OF this[OF init]] show ?thesis .
qed

lemma reloadCallback_installs_step:
  "length (installs (reloadCallback w s)) \<le> Suc (length (installs s))"
  by (auto simp add: reloadCallback_def Let_def console_simps setSecureContext_def
      split: sum.splits server.splits if_splits)

lemma installs_within_attempts:
  assumes "length (installs s) \<le> length (fired s)"
  shows "length (installs (advance w T (run w evs s))) \<le> length (fired (advance w T (run w evs s)))"
proof (rule reach_invariant[where P = "\<lambda>s. length (installs s) \<le> length (fired s)"])
  fix s :: state assume a: "length (installs s) \<le> length (fired s)"
  show "length (installs (reloadCallback w s)) \<le> length (fired (reloadCallback w s))"
    using a reloadCallback_installs_step[of w s] by (simp add: reloadCallback_frame)
  show "length (installs (s\<lparr>now := n\<rparr>)) \<le> length (fired (s\<lparr>now := n\<rparr>))" for n
    using a by simp
  show "length (installs (s\<lparr>timers := ts\<rparr>)) \<le> length (fired (s\<lparr>timers := ts\<rparr>))" for ts
    using a by simp
  show "length (installs (deliver ev s)) \<le> length (fired (deliver ev s))" for ev
    using a by (simp add: deliver_frame)
next
  show "length (installs s) \<le> length (fired s)" by (rule assms)
qed

lemma bootstrap_fired: "fired (snd (bootstrap w e (initial t files))) = []"
  by (simp add: bootstrap_def httpsOptions_def create_def Let_def console_simps
      liveReload_frame initial_def split: option.splits sum.splits)

lemma example_paths:
  "keyPath example_world = ''/srv/secrets/key.pem''"
  "certPath example_world = ''/srv/secrets/cert.pem''"
  by (simp_all add: keyPath_def certPath_def example_world_def)

lemma example_cert_missing_reload:
  "readFileSync example_state_cert_missing (keyPath example_world) = Inr ''K0''"
  "readFileSync example_state_cert_missing (certPath example_world) =
     Inl (ENOENT ''/srv/secrets/cert.pem'')"
  "server example_state_cert_missing = HttpsServer ''K0'' ''C0''"
  "installs example_state_cert_missing = []"
  by (simp_all add: example_state_cert_missing_def example_state_eq example_paths
      readFileSync_def example_files_def)

lemma example_empty_key_reload:
  "fs example_state_empty_key (keyPath example_world) = Content []"
  "fs example_state_empty_key (certPath example_world) = Content ''C0''"
  "installs example_state_empty_key = []"
  by (simp_all add: example_state_empty_key_def example_state_eq example_paths
      example_files_def)

lemma example_rotated_reload:
  "readFileSync example_state_rotated (keyPath example_world) = Inr ''K1''"
  "readFileSync example_state_rotated (certPath example_world) = Inr ''C1''"
  "setSecureContext example_world ''K1'' ''C1'' example_state_rotated =
     Inr (example_state_rotated\<lparr>server := HttpsServer ''K1'' ''C1''\<rparr>)"
  "installs example_state_rotated = []" "now example_state_rotated = 0"
proof -
  have acc: "accepts example_world ''K1'' ''C1''" by (simp add: example_world_def)
  show "readFileSync example_state_rotated (keyPath example_world) = Inr ''K1''"
    "readFileSync example_state_rotated (certPath example_world) = Inr ''C1''"
    "setSecureContext example_world ''K1'' ''C1'' example_state_rotated =
       Inr (example_state_rotated\<lparr>server := HttpsServer ''K1'' ''C1''\<rparr>)"
    "installs example_state_rotated = []" "now example_state_rotated = 0"
    using acc
    by (simp_all add: example_state_rotated_def example_state_eq example_paths
        readFileSync_def setSecureContext_def example_files_def)
qed

lemma reloadCallback_cases:
  "(installs (reloadCallback w s) = installs s \<and> server (reloadCallback w s) = server s) \<or>
   (\<exists>key cert ok.
      readFileSync s (keyPath w) = Inr key \<and> readFileSync s (certPath w) = Inr cert \<and>
      installs (reloadCallback w s) = installs s @ [(key, cert, ok)] \<and>
      server (reloadCallback w s) = (if ok then HttpsServer key cert else server s))"
  by (auto simp add: reloadCallback_def Let_def readFileSync_def setSecureContext_def
      console_simps split: sum.splits file_state.splits server.splits if_splits)

lemma example_key_unwatchable_state:
  "bootstrap example_world_key_unwatchable example_env (initial 0 example_files) =
     (Listening,
      \<lparr>now = 0, fs = example_files, server = HttpsServer ''K0'' ''C0'', reloadTimer = None,
       timers = [], nextTimer = 0, watchers = [],
       console = [(Log, [Text ''API listening on '', Text ''0.0.0.0:3334'']),
                  (Error, [Text ''[TLS] Failed to watch cert/key files:'',
                           Err (WatchError ''/srv/secrets/key.pem'')])],
       fired = [], installs = []\<rparr>)"
  using secure_example port_example
  by (simp add: bootstrap_def httpsOptions_def readFileSync_def
      keyPath_def certPath_def create_def liveReload_def watch_def console_log_def
      console_error_def initial_def example_world_key_unwatchable_def example_world_def
      example_files_def)

lemma single_signal_reloads:
  assumes "watched s ev" and "now s \<le> t1" and "timers s = []" and "t1 + 500 \<le> T"
  shows "fired (advance w T (run w [(t1, ev)] s)) = fired s @ [t1 + 500]"
proof -
  let ?r = "run w [(t1, ev)] s"
  have pre: "timers s = [] \<or>
      (\<exists>h d. timers s = [(h, d)] \<and> reloadTimer s = Some h \<and> fst (hd [(t1, ev)]) < d)"
    using assms(3) by simp
  have "fired ?r = fired s \<and> installs ?r = installs s \<and>
         server ?r = server s \<and> console ?r = console s \<and>
         watchers ?r = watchers s \<and> now ?r = fst (last [(t1, ev)]) \<and>
         (\<exists>h. timers ?r = [(h, fst (last [(t1, ev)]) + 500)] \<and> reloadTimer ?r = Some h)"
    using assms(1) assms(2) pre by (intro run_burst) simp_all
  then obtain h where f: "fired ?r = fired s" and n: "now ?r = t1"
    and tm: "timers ?r = [(h, t1 + 500)]"
    by auto
  have n': "now ?r \<le> t1 + 500" using n by simp
  from advance_fires(1)[OF tm assms(4) n', of w] f show ?thesis by simp
qed

lemma bootstrap_frame:
  "timers (snd (bootstrap w e (initial t files))) = []"
  "now (snd (bootstrap w e (initial t files))) = t"
  by (simp_all add: bootstrap_def httpsOptions_def create_def Let_def console_simps
      liveReload_frame initial_def split: option.splits sum.splits prod.splits)

lemma bootstrap_secure_cases:
  assumes "bootstrap w e (initial t files) = (out, s)" "secure e" "API_PORT e \<noteq> None"
  shows "server s = NoServer \<or> (\<exists>k c. server s = HttpsServer k c)"
    and "out \<noteq> Listening \<Longrightarrow> watchers s = []"
    and "out = Listening \<Longrightarrow>
           \<exists>k c. files (keyPath w) = Content k \<and> files (certPath w) = Content c \<and>
                 server s = HttpsServer k c"
    and "out = Listening \<Longrightarrow>
           watchers s = [keyPath w, certPath w] \<longleftrightarrow>
           hasSetSecureContext w \<and> watchError w (keyPath w) = None \<and>
           watchError w (certPath w) = None"
    and "watchers s \<noteq> [] \<Longrightarrow> hasSetSecureContext w"
proof -
  have a: "out = Listening \<Longrightarrow>
     \<exists>k c. files (keyPath w) = Content k \<and> files (certPath w) = Content c \<and>
           server s = HttpsServer k c \<and>
           s = liveReload w (console_log [Text ''API listening on '', Text (address w)]
                 ((initial t files)\<lparr>server := HttpsServer k c\<rparr>))"
    using bootstrap_secure_listening[of w e "initial t files" s] assms(1,2)
    by (auto simp add: initial_def liveReload_frame console_simps)
  have b: "out \<noteq> Listening \<Longrightarrow>
     watchers s = [] \<and> (server s = NoServer \<or> (\<exists>k c. server s = HttpsServer k c))"
    using assms
    by (auto simp add: bootstrap_def httpsOptions_def create_def Let_def console_simps
        initial_def split: if_splits option.splits sum.splits)
  have c: "out = Listening \<Longrightarrow>
     (watchers s = [keyPath w, certPath w] \<longleftrightarrow>
        hasSetSecureContext w \<and> watchError w (keyPath w) = None \<and>
        watchError w (certPath w) = None) \<and>
     (watchers s \<noteq> [] \<longrightarrow> hasSetSecureContext w)"
  proof -
    assume o: "out = Listening"
    from a[OF o] obtain k c where
      s: "s = liveReload w (console_log [Text ''API listening on '', Text (address w)]
                 ((initial t files)\<lparr>server := HttpsServer k c\<rparr>))"
      by blast
    show ?thesis
      by (auto simp add: s liveReload_def watch_def console_simps initial_def
          split: if_splits option.splits)
  qed
  show "server s = NoServer \<or> (\<exists>k c. server s = HttpsServer k c)"
    using a b by (cases "out = Listening") auto
  show "out \<noteq> Listening \<Longrightarrow> watchers s = []" using b by simp
  show "out = Listening \<Longrightarrow>
           \<exists>k c. files (keyPath w) = Content k \<and> files (certPath w) = Content c \<and>
                 server s = HttpsServer k c"
    using a by blast
  show "out = Listening \<Longrightarrow>
           watchers s = [keyPath w, certPath w] \<longleftrightarrow>
           hasSetSecureContext w \<and> watchError w (keyPath w) = None \<and>
           watchError w (certPath w) = None"
    using c by blast
  show "watchers s \<noteq> [] \<Longrightarrow> hasSetSecureContext w"
    using b c by (cases "out = Listening") auto
qed

section \<open>The claims\<close>

text \<open>
  Claim C1 (debounce collapse). From a state with no timer pending, every burst of one or
  more change signals on watched paths, each less than 500 ms after the one before, leads
  to exactly one reload attempt: it runs 500 ms after the last signal of the burst, no
  attempt runs before that, and after every signal exactly one timer is pending (the one
  armed by the latest signal).
\<close>

theorem debounce_collapse:
  assumes "evs \<noteq> []" and "burst (map fst evs)"
    and "\<forall>x \<in> set evs. watched s (snd x)"
    and "now s \<le> fst (hd evs)" and "timers s = []"
    and "fst (last evs) + 500 \<le> T"
  shows "fired (advance w T (run w evs s)) = fired s @ [fst (last evs) + 500] \<and>
         timers (advance w T (run w evs s)) = [] \<and>
         (\<forall>T' < fst (last evs) + 500. fired (advance w T' (run w evs s)) = fired s) \<and>
         (\<exists>h. timers (run w evs s) = [(h, fst (last evs) + 500)] \<and>
              reloadTimer (run w evs s) = Some h)"
proof -
  let ?r = "run w evs s"
  have pre: "timers s = [] \<or>
      (\<exists>h d. timers s = [(h, d)] \<and> reloadTimer s = Some h \<and> fst (hd evs) < d)"
    using assms(5) by simp
  from run_burst[OF assms(1) assms(2) assms(3) assms(4) pre, of w]
  obtain h where f: "fired ?r = fired s" and n: "now ?r = fst (last evs)"
    and t: "timers ?r = [(h, fst (last evs) + 500)]" and r: "reloadTimer ?r = Some h"
    by auto
  have n': "now ?r \<le> fst (last evs) + 500" using n by simp
  have a: "fired (advance w T ?r) = fired s @ [fst (last evs) + 500]"
    using advance_fires(1)[OF t assms(6) n', of w] f by simp
  have b: "timers (advance w T ?r) = []"
    using advance_fires(2)[OF t assms(6) n', of w] .
  have c: "\<forall>T' < fst (last evs) + 500. fired (advance w T' ?r) = fired s"
  proof (intro allI impI)
    fix T' assume "T' < fst (last evs) + 500"
    then have "\<forall>(h, d) \<in> set (timers ?r). T' < d" using t by simp
    from advance_idle[OF this, of w] show "fired (advance w T' ?r) = fired s"
      using f by simp
  qed
  show ?thesis using a b c t r by blast
qed

text \<open>A burst of three signals at 1000, 1100 and 1599 ms after the example's startup: one
  attempt, at 2099 ms.\<close>

theorem debounce_collapse_witness:
  "[(1000, Write ''/srv/secrets/key.pem'' (Content ''K1'')),
    (1100, Notify ''/srv/secrets/cert.pem''),
    (1599, Notify ''/srv/secrets/key.pem'')] \<noteq> [] \<and>
   burst [1000, 1100, 1599] \<and>
   watched example_state (Notify ''/srv/secrets/cert.pem'') \<and>
   now example_state \<le> 1000 \<and> timers example_state = [] \<and>
   fired (advance example_world 5000
     (run example_world
        [(1000, Write ''/srv/secrets/key.pem'' (Content ''K1'')),
         (1100, Notify ''/srv/secrets/cert.pem''),
         (1599, Notify ''/srv/secrets/key.pem'')] example_state)) = [2099]"
proof -
  let ?evs = "[(1000, Write ''/srv/secrets/key.pem'' (Content ''K1'')),
               (1100, Notify ''/srv/secrets/cert.pem''),
               (1599 :: nat, Notify ''/srv/secrets/key.pem'')]"
  have 1: "?evs \<noteq> []" by simp
  have 2: "burst (map fst ?evs)" by simp
  have 3: "\<forall>x \<in> set ?evs. watched example_state (snd x)"
    by (simp add: watched_def example_state_eq)
  have 4: "now example_state \<le> fst (hd ?evs)" by (simp add: example_state_eq)
  have 5: "timers example_state = []" by (simp add: example_state_eq)
  have 6: "fst (last ?evs) + 500 \<le> (5000 :: nat)" by simp
  have 7: "fired example_state = []" by (simp add: example_state_eq)
  from debounce_collapse[OF 1 2 3 4 5 6, of example_world] 3 4 5 7
  show ?thesis by simp
qed

text \<open>
  Claim C3 (sustained-stream suppression). Along an endless stream of change signals on
  watched paths in which every signal comes less than 500 ms after the one before, no
  reload attempt ever runs: none has run after any number of signals, none runs at any
  time before 500 ms have passed since the latest signal, and after each signal the only
  pending timer is the one that signal armed (the one before it was cancelled).
\<close>

theorem sustained_stream_suppression:
  assumes "\<forall>i. fst (sig i) \<le> fst (sig (Suc i)) \<and> fst (sig (Suc i)) < fst (sig i) + 500"
    and "\<forall>i. watched s (snd (sig i))"
    and "now s \<le> fst (sig 0)" and "timers s = []"
  shows "fired (run w (map sig [0..<n]) s) = fired s \<and>
         (\<forall>T < fst (sig n) + 500.
            fired (advance w T (run w (map sig [0..<Suc n]) s)) = fired s) \<and>
         (\<exists>h. timers (run w (map sig [0..<Suc n]) s) = [(h, fst (sig n) + 500)] \<and>
              reloadTimer (run w (map sig [0..<Suc n]) s) = Some h)"
proof -
  have pre: "\<And>evs. timers s = [] \<or>
      (\<exists>h d. timers s = [(h, d)] \<and> reloadTimer s = Some h \<and> fst (hd evs) < d)"
    using assms(4) by simp
  have b: "\<And>k. burst (map fst (map sig [0..<k]))"
    using burst_map_upt[of "\<lambda>i. fst (sig i)" 0] assms(1) by (simp add: comp_def)
  have wa: "\<And>k. \<forall>x \<in> set (map sig [0..<k]). watched s (snd x)"
    using assms(2) by simp
  have hd0: "\<And>k. 0 < k \<Longrightarrow> hd (map sig [0..<k]) = sig 0"
    by (simp add: upt_conv_Cons)
  have first: "fired (run w (map sig [0..<n]) s) = fired s"
  proof (cases n)
    case 0
    then show ?thesis by simp
  next
    case (Suc m)
    have ne: "map sig [0..<n] \<noteq> []" using Suc by simp
    have n0: "now s \<le> fst (hd (map sig [0..<n]))" using assms(3) hd0[of n] Suc by simp
    from run_burst[OF ne b wa n0 pre, of w] show ?thesis by simp
  qed
  let ?evs = "map sig [0..<Suc n]"
  have ne: "?evs \<noteq> []" by simp
  have n0: "now s \<le> fst (hd ?evs)" using assms(3) hd0[of "Suc n"] by simp
  have la: "last ?evs = sig n" by simp
  from debounce_core(2,3)[OF ne b wa n0 assms(4), of w]
  show ?thesis using first la by simp
qed

text \<open>Forty signals 499 ms apart: no attempt.\<close>

theorem sustained_stream_suppression_witness:
  "(\<forall>i. fst (example_stream i) \<le> fst (example_stream (Suc i)) \<and>
        fst (example_stream (Suc i)) < fst (example_stream i) + 500) \<and>
   (\<forall>i. watched example_state (snd (example_stream i))) \<and>
   now example_state \<le> fst (example_stream 0) \<and> timers example_state = [] \<and>
   fired (run example_world (map example_stream [0..<40]) example_state) = []"
proof -
  have 1: "\<forall>i. fst (example_stream i) \<le> fst (example_stream (Suc i)) \<and>
        fst (example_stream (Suc i)) < fst (example_stream i) + 500"
    by (simp add: example_stream_def)
  have 2: "\<forall>i. watched example_state (snd (example_stream i))"
    by (simp add: example_stream_def watched_def example_state_eq)
  have 3: "now example_state \<le> fst (example_stream 0)" by (simp add: example_state_eq)
  have 4: "timers example_state = []" by (simp add: example_state_eq)
  have 5: "fired example_state = []" by (simp add: example_state_eq)
  from sustained_stream_suppression[OF 1 2 3 4, of example_world 40] 1 2 3 4 5
  show ?thesis by simp
qed

text \<open>
  Claim C4 (gap separation). Two change signals on watched paths more than 500 ms apart,
  with nothing between them, give two reload attempts, one 500 ms after each signal; the
  first has run by the time the second signal arrives.
\<close>

theorem gap_separation:
  assumes "watched s e1" and "watched s e2"
    and "now s \<le> t1" and "timers s = []"
    and "t1 + 500 < t2" and "t2 + 500 \<le> T"
  shows "fired (advance w t2 (run w [(t1, e1)] s)) = fired s @ [t1 + 500] \<and>
         fired (advance w T (run w [(t1, e1), (t2, e2)] s)) = fired s @ [t1 + 500, t2 + 500] \<and>
         timers (advance w T (run w [(t1, e1), (t2, e2)] s)) = []"
proof -
  define s1 where "s1 = run w [(t1, e1)] s"
  have pre: "timers s = [] \<or>
      (\<exists>h d. timers s = [(h, d)] \<and> reloadTimer s = Some h \<and> fst (hd [(t1, e1)]) < d)"
    using assms(4) by simp
  have "fired s1 = fired s \<and> installs s1 = installs s \<and>
         server s1 = server s \<and> console s1 = console s \<and>
         watchers s1 = watchers s \<and> now s1 = fst (last [(t1, e1)]) \<and>
         (\<exists>h. timers s1 = [(h, fst (last [(t1, e1)]) + 500)] \<and> reloadTimer s1 = Some h)"
    unfolding s1_def using assms(1) assms(3) pre
    by (intro run_burst) simp_all
  then obtain h where s1: "fired s1 = fired s" "watchers s1 = watchers s" "now s1 = t1"
    "timers s1 = [(h, t1 + 500)]" "reloadTimer s1 = Some h"
    by auto
  define s2 where "s2 = advance w t2 s1"
  have d1: "t1 + 500 \<le> t2" using assms(5) by simp
  have n1: "now s1 \<le> t1 + 500" using s1(3) by simp
  have s2: "fired s2 = fired s @ [t1 + 500]" "timers s2 = []" "now s2 = t2"
    "watchers s2 = watchers s"
    using advance_fires[OF s1(4) d1 n1, of w] s1 by (simp_all add: s2_def)
  define s3 where "s3 = deliver e2 s2"
  have q2: "quiet s2" using s2(2) by (simp add: quiet_def)
  have w2: "watched s2 e2" using assms(2) s2(4) by (simp add: watched_def)
  obtain h' where s3: "timers s3 = [(h', t2 + 500)]"
    using deliver_arms[OF q2 w2] s2(3) by (auto simp add: s3_def)
  have f3: "fired s3 = fired s2" "now s3 = t2"
    using s2(3) by (simp_all add: s3_def deliver_frame)
  have n3: "now s3 \<le> t2 + 500" using f3(2) by simp
  have r: "run w [(t1, e1), (t2, e2)] s = s3"
    by (simp add: s3_def s2_def s1_def)
  have a: "fired (advance w t2 (run w [(t1, e1)] s)) = fired s @ [t1 + 500]"
    using s2(1) by (simp add: s2_def s1_def)
  have b: "fired (advance w T s3) = fired s @ [t1 + 500, t2 + 500]"
    using advance_fires(1)[OF s3 assms(6) n3, of w] f3(1) s2(1) by simp
  have c: "timers (advance w T s3) = []"
    using advance_fires(2)[OF s3 assms(6) n3, of w] .
  show ?thesis using a b c r by simp
qed

text \<open>Signals at 1000 and 1501 ms: attempts at 1500 and 2001 ms.\<close>

theorem gap_separation_witness:
  "watched example_state (Notify ''/srv/secrets/key.pem'') \<and>
   watched example_state (Notify ''/srv/secrets/cert.pem'') \<and>
   now example_state \<le> 1000 \<and> timers example_state = [] \<and>
   fired (advance example_world 3000
     (run example_world
        [(1000, Notify ''/srv/secrets/key.pem''), (1501, Notify ''/srv/secrets/cert.pem'')]
        example_state)) = [1500, 2001]"
proof -
  have 1: "watched example_state (Notify ''/srv/secrets/key.pem'')"
    by (simp add: watched_def example_state_eq)
  have 2: "watched example_state (Notify ''/srv/secrets/cert.pem'')"
    by (simp add: watched_def example_state_eq)
  have 3: "now example_state \<le> 1000" by (simp add: example_state_eq)
  have 4: "timers example_state = []" by (simp add: example_state_eq)
  have 5: "(1000 :: nat) + 500 < 1501" by simp
  have 6: "(1501 :: nat) + 500 \<le> 3000" by simp
  have 7: "fired example_state = []" by (simp add: example_state_eq)
  from gap_separation[OF 1 2 3 4 5 6, of example_world] 1 2 3 4 7
  show ?thesis by simp
qed

text \<open>
  Claim C8 (disabled-capability guard). When TLS is enabled, the server is listening and
  it does not expose \<open>setSecureContext\<close>: no watch is registered, the console holds
  exactly one warning (the line of line 101), and whatever is written to or notified for
  any file afterwards, no reload attempt runs, no install is called, no timer is armed and
  the server keeps its credentials.
\<close>

theorem disabled_capability_guard:
  assumes "bootstrap w e (initial t files) = (Listening, s)"
    and "secure e" and "\<not> hasSetSecureContext w"
  shows "watchers s = [] \<and>
         filter (\<lambda>l. fst l = Warn) (console s) =
           [(Warn, [Text ''[TLS] Dynamic cert reload not available (non-HTTPS server?)''])] \<and>
         (\<forall>evs T. fired (advance w T (run w evs s)) = [] \<and>
                  installs (advance w T (run w evs s)) = [] \<and>
                  timers (advance w T (run w evs s)) = [] \<and>
                  server (advance w T (run w evs s)) = server s)"
proof -
  from bootstrap_secure_listening[OF assms(1) assms(2)]
  obtain key cert where
    s: "s = liveReload w
              (console_log [Text ''API listening on '', Text (address w)]
                 ((initial t files)\<lparr>server := HttpsServer key cert\<rparr>))"
    by blast
  have s': "s = console_warn [Text ''[TLS] Dynamic cert reload not available (non-HTTPS server?)'']
              (console_log [Text ''API listening on '', Text (address w)]
                 ((initial t files)\<lparr>server := HttpsServer key cert\<rparr>))"
    using s liveReload_unsupported[OF assms(3)] by simp
  have w0: "watchers s = []" by (simp add: s' console_simps initial_def)
  have t0: "timers s = []" by (simp add: s' console_simps initial_def)
  have f0: "fired s = []" "installs s = []" by (simp_all add: s' console_simps initial_def)
  have c0: "filter (\<lambda>l. fst l = Warn) (console s) =
           [(Warn, [Text ''[TLS] Dynamic cert reload not available (non-HTTPS server?)''])]"
    by (simp add: s' console_simps initial_def)
  show ?thesis using w0 c0 inert[OF w0 t0, of w] f0 by simp
qed

text \<open>The example on such a runtime: the key and the certificate are rewritten, and
  nothing is reloaded.\<close>

theorem disabled_capability_guard_witness:
  "bootstrap example_world_no_reload example_env (initial 0 example_files) =
     (Listening, snd (bootstrap example_world_no_reload example_env (initial 0 example_files))) \<and>
   secure example_env \<and> \<not> hasSetSecureContext example_world_no_reload \<and>
   watchers (snd (bootstrap example_world_no_reload example_env (initial 0 example_files))) = [] \<and>
   fired (advance example_world_no_reload 9000
     (run example_world_no_reload
        [(1000, Write ''/srv/secrets/key.pem'' (Content ''K1'')),
         (1200, Write ''/srv/secrets/cert.pem'' (Content ''C1''))]
        (snd (bootstrap example_world_no_reload example_env (initial 0 example_files))))) = []"
proof -
  let ?b = "bootstrap example_world_no_reload example_env (initial 0 example_files)"
  have "fst ?b = Listening"
    using secure_example port_example
    by (simp add: bootstrap_def httpsOptions_def readFileSync_def
        keyPath_def certPath_def create_def initial_def example_world_no_reload_def
        example_world_def example_files_def)
  then have 1: "?b = (Listening, snd ?b)" by (simp add: prod_eq_iff)
  have 3: "\<not> hasSetSecureContext example_world_no_reload"
    by (simp add: example_world_no_reload_def example_world_def)
  let ?evs = "[(1000, Write ''/srv/secrets/key.pem'' (Content ''K1'')),
               (1200 :: nat, Write ''/srv/secrets/cert.pem'' (Content ''C1''))]"
  note g = disabled_capability_guard[OF 1 secure_example 3]
  from g have 4: "watchers (snd ?b) = []" by blast
  from g have 5: "fired (advance example_world_no_reload 9000
      (run example_world_no_reload ?evs (snd ?b))) = []"
    by blast
  from 1 secure_example 3 4 5 show ?thesis by blast
qed

text \<open>
  Claim C7 (watch-registration failure degradation). When the registration of the key's
  watch throws, the code does what the claim says: one error line, the server listening
  with the startup pair, no watcher, and no reload whatever is written later. When the
  key's watch registers and the certificate's throws, the failure is reported in the same
  way, but the key's watcher is left registered: after a rewrite of both files the
  notification for the key is reloaded at 1700 ms and the startup pair is replaced.
\<close>

theorem watch_registration_failure_divergence:
  "watchError example_world_cert_unwatchable (certPath example_world_cert_unwatchable) =
     Some (WatchError ''/srv/secrets/cert.pem'') \<and>
   fst (bootstrap example_world_cert_unwatchable example_env (initial 0 example_files)) =
     Listening \<and>
   filter (\<lambda>l. fst l = Error)
     (console (snd (bootstrap example_world_cert_unwatchable example_env
                      (initial 0 example_files)))) =
     [(Error, [Text ''[TLS] Failed to watch cert/key files:'',
               Err (WatchError ''/srv/secrets/cert.pem'')])] \<and>
   watchers (snd (bootstrap example_world_cert_unwatchable example_env
                    (initial 0 example_files))) = [''/srv/secrets/key.pem''] \<and>
   fired (advance example_world_cert_unwatchable 2000
     (run example_world_cert_unwatchable
        [(1000, Write ''/srv/secrets/cert.pem'' (Content ''C1'')),
         (1200, Write ''/srv/secrets/key.pem'' (Content ''K1''))]
        (snd (bootstrap example_world_cert_unwatchable example_env
                (initial 0 example_files))))) = [1700] \<and>
   server (advance example_world_cert_unwatchable 2000
     (run example_world_cert_unwatchable
        [(1000, Write ''/srv/secrets/cert.pem'' (Content ''C1'')),
         (1200, Write ''/srv/secrets/key.pem'' (Content ''K1''))]
        (snd (bootstrap example_world_cert_unwatchable example_env
                (initial 0 example_files))))) = HttpsServer ''K1'' ''C1'' \<and>
   fst (bootstrap example_world_key_unwatchable example_env (initial 0 example_files)) =
     Listening \<and>
   filter (\<lambda>l. fst l = Error)
     (console (snd (bootstrap example_world_key_unwatchable example_env
                      (initial 0 example_files)))) =
     [(Error, [Text ''[TLS] Failed to watch cert/key files:'',
               Err (WatchError ''/srv/secrets/key.pem'')])] \<and>
   watchers (snd (bootstrap example_world_key_unwatchable example_env
                    (initial 0 example_files))) = [] \<and>
   fired (advance example_world_key_unwatchable 2000
     (run example_world_key_unwatchable
        [(1000, Write ''/srv/secrets/cert.pem'' (Content ''C1'')),
         (1200, Write ''/srv/secrets/key.pem'' (Content ''K1''))]
        (snd (bootstrap example_world_key_unwatchable example_env
                (initial 0 example_files))))) = [] \<and>
   server (advance example_world_key_unwatchable 2000
     (run example_world_key_unwatchable
        [(1000, Write ''/srv/secrets/cert.pem'' (Content ''C1'')),
         (1200, Write ''/srv/secrets/key.pem'' (Content ''K1''))]
        (snd (bootstrap example_world_key_unwatchable example_env
                (initial 0 example_files))))) = HttpsServer ''K0'' ''C0''"
proof -
  have c: "watchError example_world_cert_unwatchable (certPath example_world_cert_unwatchable) =
     Some (WatchError ''/srv/secrets/cert.pem'')"
    by (simp add: example_world_cert_unwatchable_def example_world_def certPath_def)
  have a: "fst (bootstrap example_world_cert_unwatchable example_env (initial 0 example_files)) =
     Listening \<and>
   filter (\<lambda>l. fst l = Error)
     (console (snd (bootstrap example_world_cert_unwatchable example_env
                      (initial 0 example_files)))) =
     [(Error, [Text ''[TLS] Failed to watch cert/key files:'',
               Err (WatchError ''/srv/secrets/cert.pem'')])] \<and>
   watchers (snd (bootstrap example_world_cert_unwatchable example_env
                    (initial 0 example_files))) = [''/srv/secrets/key.pem'']"
    by (simp add: example_cert_unwatchable_state)
  have b: "fired (advance example_world_cert_unwatchable 2000
     (run example_world_cert_unwatchable
        [(1000, Write ''/srv/secrets/cert.pem'' (Content ''C1'')),
         (1200, Write ''/srv/secrets/key.pem'' (Content ''K1''))]
        (snd (bootstrap example_world_cert_unwatchable example_env
                (initial 0 example_files))))) = [1700] \<and>
   server (advance example_world_cert_unwatchable 2000
     (run example_world_cert_unwatchable
        [(1000, Write ''/srv/secrets/cert.pem'' (Content ''C1'')),
         (1200, Write ''/srv/secrets/key.pem'' (Content ''K1''))]
        (snd (bootstrap example_world_cert_unwatchable example_env
                (initial 0 example_files))))) = HttpsServer ''K1'' ''C1''"
    by (simp add: example_cert_unwatchable_state)
      (simp add: example_world_cert_unwatchable_def example_world_def certPath_def keyPath_def
        advance_def notify_def scheduleReload_def setTimeout_def clearTimeout_def
        reloadCallback_def readFileSync_def setSecureContext_def console_log_def
        console_error_def example_files_def)
  have d: "fst (bootstrap example_world_key_unwatchable example_env (initial 0 example_files)) =
     Listening \<and>
   filter (\<lambda>l. fst l = Error)
     (console (snd (bootstrap example_world_key_unwatchable example_env
                      (initial 0 example_files)))) =
     [(Error, [Text ''[TLS] Failed to watch cert/key files:'',
               Err (WatchError ''/srv/secrets/key.pem'')])] \<and>
   watchers (snd (bootstrap example_world_key_unwatchable example_env
                    (initial 0 example_files))) = []"
    by (simp add: example_key_unwatchable_state)
  have e: "fired (advance example_world_key_unwatchable 2000
     (run example_world_key_unwatchable
        [(1000, Write ''/srv/secrets/cert.pem'' (Content ''C1'')),
         (1200, Write ''/srv/secrets/key.pem'' (Content ''K1''))]
        (snd (bootstrap example_world_key_unwatchable example_env
                (initial 0 example_files))))) = [] \<and>
   server (advance example_world_key_unwatchable 2000
     (run example_world_key_unwatchable
        [(1000, Write ''/srv/secrets/cert.pem'' (Content ''C1'')),
         (1200, Write ''/srv/secrets/key.pem'' (Content ''K1''))]
        (snd (bootstrap example_world_key_unwatchable example_env
                (initial 0 example_files))))) = HttpsServer ''K0'' ''C0''"
    by (simp add: example_key_unwatchable_state)
      (simp add: advance_def notify_def)
  from c a b d e show ?thesis by blast
qed

text \<open>
  Claim C10 as stated fails in two ways. With \<open>API_SECURE=true\<close> and \<open>API_PORT\<close> unset
  the flag is true, yet \<open>bootstrap\<close> returns at the guard of line 13 before any server is
  created and before any watcher is registered. And with the flag true and the server
  listening, on a runtime without \<open>setSecureContext\<close> no watcher is registered.
\<close>

theorem tls_enablement_counterexample:
  "secure example_env_no_port \<and>
   fst (bootstrap example_world example_env_no_port (initial 0 example_files)) = Returned \<and>
   server (snd (bootstrap example_world example_env_no_port (initial 0 example_files))) =
     NoServer \<and>
   watchers (snd (bootstrap example_world example_env_no_port (initial 0 example_files))) = [] \<and>
   secure example_env \<and>
   fst (bootstrap example_world_no_reload example_env (initial 0 example_files)) = Listening \<and>
   watchers (snd (bootstrap example_world_no_reload example_env (initial 0 example_files))) = []"
proof -
  have 1: "secure example_env_no_port"
    unfolding secure_def example_env_no_port_def by code_simp
  have 2: "API_PORT example_env_no_port = None"
    by (simp add: example_env_no_port_def)
  have 3: "fst (bootstrap example_world example_env_no_port (initial 0 example_files)) = Returned \<and>
   server (snd (bootstrap example_world example_env_no_port (initial 0 example_files))) =
     NoServer \<and>
   watchers (snd (bootstrap example_world example_env_no_port (initial 0 example_files))) = []"
    using 2 by (simp add: bootstrap_unconfigured console_simps initial_def)
  have 4: "fst (bootstrap example_world_no_reload example_env (initial 0 example_files)) =
     Listening \<and>
   watchers (snd (bootstrap example_world_no_reload example_env (initial 0 example_files))) = []"
    using secure_example port_example
    by (simp add: bootstrap_def httpsOptions_def readFileSync_def
        keyPath_def certPath_def create_def liveReload_def console_simps initial_def
        example_world_no_reload_def example_world_def example_files_def)
  from 1 3 4 secure_example show ?thesis by blast
qed

text \<open>
  Claim C10, amended. The flag \<open>secure\<close> is true exactly when \<open>API_SECURE\<close> is set and
  its lowercase form is the string \<open>true\<close>. Whenever \<open>bootstrap\<close> creates a server, the
  server has https options exactly when the flag is true; when the server is listening,
  it holds the key and the certificate read at startup exactly when the flag is true;
  and with the flag true, \<open>API_PORT\<close> set, both files readable, the pair accepted and no
  listen error, the server does come to listen. The hot-reload pipeline is installed,
  with watchers on the key and on the certificate, exactly when the server is listening,
  the flag is true, the server has \<open>setSecureContext\<close> and both registrations succeed;
  once it is installed, a change signal for either file is reloaded 500 ms later. For
  every other value of \<open>API_SECURE\<close>, unset included: if \<open>API_PORT\<close> is set the
  server is created without https options, and in any case no watcher is registered, no
  timer is ever armed, no reload attempt ever runs and no install is ever called.
\<close>

theorem tls_enablement:
  assumes "bootstrap w e (initial t files) = (out, s)"
  shows "(secure e \<longleftrightarrow> (\<exists>v. API_SECURE e = Some v \<and> toLowerCase v = ''true'')) \<and>
         (server s \<noteq> NoServer \<longrightarrow> ((\<exists>k c. server s = HttpsServer k c) \<longleftrightarrow> secure e)) \<and>
         (out = Listening \<longrightarrow>
            ((\<exists>k c. files (keyPath w) = Content k \<and> files (certPath w) = Content c \<and>
                    server s = HttpsServer k c) \<longleftrightarrow> secure e)) \<and>
         (API_PORT e \<noteq> None \<longrightarrow> secure e \<longrightarrow> listenError w = None \<longrightarrow>
            (\<forall>k c. files (keyPath w) = Content k \<longrightarrow> files (certPath w) = Content c \<longrightarrow>
                   accepts w k c \<longrightarrow> out = Listening)) \<and>
         (watchers s = [keyPath w, certPath w] \<longleftrightarrow>
            out = Listening \<and> secure e \<and> hasSetSecureContext w \<and>
            watchError w (keyPath w) = None \<and> watchError w (certPath w) = None) \<and>
         (watchers s = [keyPath w, certPath w] \<longrightarrow>
            (\<forall>t1 ev T. watched s ev \<longrightarrow> t \<le> t1 \<longrightarrow> t1 + 500 \<le> T \<longrightarrow>
               fired (advance w T (run w [(t1, ev)] s)) = [t1 + 500])) \<and>
         (\<not> secure e \<longrightarrow> API_PORT e \<noteq> None \<longrightarrow> server s = HttpServer) \<and>
         (\<not> secure e \<longrightarrow>
            watchers s = [] \<and>
            (\<forall>evs T. fired (advance w T (run w evs s)) = [] \<and>
                     installs (advance w T (run w evs s)) = [] \<and>
                     watchers (advance w T (run w evs s)) = [] \<and>
                     timers (advance w T (run w evs s)) = [] \<and>
                     server (advance w T (run w evs s)) = server s)) \<and>
         (watchers s \<noteq> [] \<longrightarrow>
            out = Listening \<and> secure e \<and> API_PORT e \<noteq> None \<and> hasSetSecureContext w)"
proof -
  have s: "s = snd (bootstrap w e (initial t files))" using assms by simp
  have fr: "timers s = []" "now s = t" "fired s = []" "installs s = []"
    by (simp_all add: s bootstrap_frame bootstrap_fired bootstrap_installs)
  have pipe: "watchers s = [keyPath w, certPath w] \<longrightarrow>
            (\<forall>t1 ev T. watched s ev \<longrightarrow> t \<le> t1 \<longrightarrow> t1 + 500 \<le> T \<longrightarrow>
               fired (advance w T (run w [(t1, ev)] s)) = [t1 + 500])"
  proof (intro impI allI)
    fix t1 ev T
    assume "watched s ev" "t \<le> t1" "t1 + 500 \<le> T"
    then show "fired (advance w T (run w [(t1, ev)] s)) = [t1 + 500]"
      using single_signal_reloads[of s ev t1 T w] fr by simp
  qed
  have up: "API_PORT e \<noteq> None \<longrightarrow> secure e \<longrightarrow> listenError w = None \<longrightarrow>
            (\<forall>k c. files (keyPath w) = Content k \<longrightarrow> files (certPath w) = Content c \<longrightarrow>
                   accepts w k c \<longrightarrow> out = Listening)"
  proof (intro impI allI)
    fix k c
    assume h: "API_PORT e \<noteq> None" "secure e" "listenError w = None"
      "files (keyPath w) = Content k" "files (certPath w) = Content c" "accepts w k c"
    have fk: "fs (initial t files) (keyPath w) = Content k"
      and fc: "fs (initial t files) (certPath w) = Content c"
      using h(4,5) by (simp_all add: initial_def)
    from bootstrap_secure_ok[OF h(1) h(2) h(3) fk fc h(6)] assms
    show "out = Listening" by simp
  qed
  have rest: "(server s \<noteq> NoServer \<longrightarrow> ((\<exists>k c. server s = HttpsServer k c) \<longleftrightarrow> secure e)) \<and>
         (out = Listening \<longrightarrow>
            ((\<exists>k c. files (keyPath w) = Content k \<and> files (certPath w) = Content c \<and>
                    server s = HttpsServer k c) \<longleftrightarrow> secure e)) \<and>
         (watchers s = [keyPath w, certPath w] \<longleftrightarrow>
            out = Listening \<and> secure e \<and> hasSetSecureContext w \<and>
            watchError w (keyPath w) = None \<and> watchError w (certPath w) = None) \<and>
         (\<not> secure e \<longrightarrow> API_PORT e \<noteq> None \<longrightarrow> server s = HttpServer) \<and>
         (\<not> secure e \<longrightarrow>
            watchers s = [] \<and>
            (\<forall>evs T. fired (advance w T (run w evs s)) = [] \<and>
                     installs (advance w T (run w evs s)) = [] \<and>
                     watchers (advance w T (run w evs s)) = [] \<and>
                     timers (advance w T (run w evs s)) = [] \<and>
                     server (advance w T (run w evs s)) = server s)) \<and>
         (watchers s \<noteq> [] \<longrightarrow>
            out = Listening \<and> secure e \<and> API_PORT e \<noteq> None \<and> hasSetSecureContext w)"
  proof (cases "API_PORT e = None")
    case True
    have s': "s = console_error
        [Text ''It appears your environment is not configured, create and populate an .env file.'']
        (initial t files)"
      using assms bootstrap_unconfigured[OF True, of w "initial t files"] by simp
    have out: "out = Returned"
      using assms bootstrap_unconfigured[OF True, of w "initial t files"] by simp
    have f: "watchers s = []" "server s = NoServer"
      by (simp_all add: s' console_simps initial_def)
    show ?thesis
      using True f out fr inert[OF f(1) fr(1), of w] by simp
  next
    case False
    show ?thesis
    proof (cases "secure e")
      case True
      note c = bootstrap_secure_cases[OF assms True False]
      show ?thesis using c True False by (cases "out = Listening") auto
    next
      case ns: False
      have "\<exists>m. s = console_error m ((initial t files)\<lparr>server := HttpServer\<rparr>) \<or>
                 s = console_log m ((initial t files)\<lparr>server := HttpServer\<rparr>)"
        using assms bootstrap_insecure[OF False ns, of w "initial t files"]
        by (auto split: option.splits)
      then have f: "watchers s = []" "server s = HttpServer"
        by (auto simp add: console_simps initial_def)
      show ?thesis
        using False f ns fr inert[OF f(1) fr(1), of w] by simp
    qed
  qed
  show ?thesis using secure_iff[of e] pipe up rest by blast
qed

text \<open>The example with \<open>API_SECURE=yes\<close>: a plain server, no watcher, and rewritten
  files are never reloaded. With \<open>API_SECURE=TRUE\<close>: the server listens, it is an HTTPS
  server, both watchers are registered, and a notification for the key at 1000 ms is
  reloaded at 1500 ms.\<close>

theorem tls_enablement_witness:
  "\<not> secure example_env_insecure \<and> API_PORT example_env_insecure \<noteq> None \<and>
   server (snd (bootstrap example_world example_env_insecure (initial 0 example_files))) =
     HttpServer \<and>
   watchers (snd (bootstrap example_world example_env_insecure (initial 0 example_files))) = [] \<and>
   fired (advance example_world 9000
     (run example_world
        [(1000, Write ''/srv/secrets/key.pem'' (Content ''K1'')),
         (1200, Write ''/srv/secrets/cert.pem'' (Content ''C1''))]
        (snd (bootstrap example_world example_env_insecure (initial 0 example_files))))) = [] \<and>
   secure example_env \<and>
   fst (bootstrap example_world example_env (initial 0 example_files)) = Listening \<and>
   hasSetSecureContext example_world \<and>
   watchError example_world (keyPath example_world) = None \<and>
   watchError example_world (certPath example_world) = None \<and>
   (\<exists>k c. server example_state = HttpsServer k c) \<and>
   watchers example_state = [keyPath example_world, certPath example_world] \<and>
   watched example_state (Notify ''/srv/secrets/key.pem'') \<and>
   fired (advance example_world 2000
     (run example_world [(1000, Notify ''/srv/secrets/key.pem'')] example_state)) = [1500]"
proof -
  let ?b = "bootstrap example_world example_env_insecure (initial 0 example_files)"
  let ?c = "bootstrap example_world example_env (initial 0 example_files)"
  let ?evs = "[(1000, Write ''/srv/secrets/key.pem'' (Content ''K1'')),
               (1200 :: nat, Write ''/srv/secrets/cert.pem'' (Content ''C1''))]"
  have 1: "?b = (fst ?b, snd ?b)" by simp
  have 2: "\<not> secure example_env_insecure"
    unfolding secure_def example_env_insecure_def by code_simp
  have 3: "API_PORT example_env_insecure \<noteq> None" by (simp add: example_env_insecure_def)
  note g = tls_enablement[OF 1]
  note g7 = g[THEN conjunct2, THEN conjunct2, THEN conjunct2, THEN conjunct2, THEN conjunct2,
      THEN conjunct2, THEN conjunct1]
  note g8 = g[THEN conjunct2, THEN conjunct2, THEN conjunct2, THEN conjunct2, THEN conjunct2,
      THEN conjunct2, THEN conjunct2, THEN conjunct1]
  from g7 2 3 have a: "server (snd ?b) = HttpServer" by simp
  from g8 2 have b: "watchers (snd ?b) = []" by simp
  from g8 2 have "\<forall>evs T. fired (advance example_world T (run example_world evs (snd ?b))) = []"
    by simp
  then have c: "fired (advance example_world 9000 (run example_world ?evs (snd ?b))) = []"
    by (rule allE) (erule allE)
  have 4: "?c = (Listening, example_state)"
    using example_outcome by (simp add: example_state_def prod_eq_iff)
  note h = tls_enablement[OF 4]
  note h3 = h[THEN conjunct2, THEN conjunct2, THEN conjunct1]
  note h5 = h[THEN conjunct2, THEN conjunct2, THEN conjunct2, THEN conjunct2, THEN conjunct1]
  note h6 = h[THEN conjunct2, THEN conjunct2, THEN conjunct2, THEN conjunct2, THEN conjunct2,
      THEN conjunct1]
  have 5: "hasSetSecureContext example_world"
    "watchError example_world (keyPath example_world) = None"
    "watchError example_world (certPath example_world) = None"
    by (simp_all add: example_world_def)
  from h3 secure_example
  have "\<exists>k c. example_files (keyPath example_world) = Content k \<and>
               example_files (certPath example_world) = Content c \<and>
               server example_state = HttpsServer k c"
    by simp
  then have d: "\<exists>k c. server example_state = HttpsServer k c" by blast
  from h5 secure_example 5
  have e: "watchers example_state = [keyPath example_world, certPath example_world]"
    by simp
  have 6: "watched example_state (Notify ''/srv/secrets/key.pem'')"
    by (simp add: watched_def example_state_eq)
  have 7: "(0 :: nat) \<le> 1000" "(1000 :: nat) + 500 \<le> 2000" by simp_all
  from h6[rule_format, OF e 6 7]
  have f: "fired (advance example_world 2000
     (run example_world [(1000, Notify ''/srv/secrets/key.pem'')] example_state)) = [1500]"
    by simp
  from 2 3 a b c d e f 5 6 secure_example example_outcome show ?thesis by blast
qed

text \<open>
  Claim C2 (atomicity under failure). In every reload attempt, if the read of the key
  throws, or the read of the certificate throws, or \<open>setSecureContext\<close> throws, the
  server's credentials after the attempt are those before it. And at every moment after
  \<open>bootstrap\<close>, whatever events arrive, the server is the one created at startup while no
  install has returned, and otherwise holds exactly the pair of the latest install that
  returned.
\<close>

theorem atomicity_under_failure:
  "((\<exists>err. readFileSync s (keyPath w) = Inl err) \<longrightarrow>
      server (reloadCallback w s) = server s) \<and>
   ((\<exists>err. readFileSync s (certPath w) = Inl err) \<longrightarrow>
      server (reloadCallback w s) = server s) \<and>
   (\<forall>key cert. readFileSync s (keyPath w) = Inr key \<longrightarrow>
      readFileSync s (certPath w) = Inr cert \<longrightarrow>
      (\<exists>err. setSecureContext w key cert s = Inl err) \<longrightarrow>
      server (reloadCallback w s) = server s) \<and>
   (\<forall>evs T.
      server (advance w T (run w evs (snd (bootstrap w e (initial t files))))) =
      expectedServer (server (snd (bootstrap w e (initial t files))))
        (advance w T (run w evs (snd (bootstrap w e (initial t files))))))"
proof -
  let ?s0 = "snd (bootstrap w e (initial t files))"
  have a: "(\<exists>err. readFileSync s (keyPath w) = Inl err) \<longrightarrow>
      server (reloadCallback w s) = server s"
    using reloadCallback_read_fails(1)[of s w] by blast
  have b: "(\<exists>err. readFileSync s (certPath w) = Inl err) \<longrightarrow>
      server (reloadCallback w s) = server s"
    using reloadCallback_read_fails(1)[of s w] by blast
  have c: "\<forall>key cert. readFileSync s (keyPath w) = Inr key \<longrightarrow>
      readFileSync s (certPath w) = Inr cert \<longrightarrow>
      (\<exists>err. setSecureContext w key cert s = Inl err) \<longrightarrow>
      server (reloadCallback w s) = server s"
    using reloadCallback_install_fails(1)[of s w] by blast
  have "server ?s0 = expectedServer (server ?s0) ?s0"
    by (simp add: expectedServer_def installed_def bootstrap_installs)
  then have d: "\<forall>evs T. server (advance w T (run w evs ?s0)) =
      expectedServer (server ?s0) (advance w T (run w evs ?s0))"
    by (intro allI advance_keeps_expected run_keeps_expected)
  show ?thesis using a b c d by blast
qed

text \<open>The example with the certificate deleted: the attempt leaves the startup pair. And
  a whole run: the key is rewritten, the certificate is deleted, the attempt at 1600 ms
  fails, and the server still holds the startup pair.\<close>

theorem atomicity_under_failure_witness:
  "readFileSync example_state_cert_missing (certPath example_world) =
     Inl (ENOENT ''/srv/secrets/cert.pem'') \<and>
   server (reloadCallback example_world example_state_cert_missing) =
     HttpsServer ''K0'' ''C0'' \<and>
   fired (advance example_world 2000
     (run example_world
        [(1000, Write ''/srv/secrets/key.pem'' (Content ''K1'')),
         (1100, Write ''/srv/secrets/cert.pem'' Missing)] example_state)) = [1600] \<and>
   server (advance example_world 2000
     (run example_world
        [(1000, Write ''/srv/secrets/key.pem'' (Content ''K1'')),
         (1100, Write ''/srv/secrets/cert.pem'' Missing)] example_state)) =
     HttpsServer ''K0'' ''C0''"
proof -
  let ?evs = "[(1000, Write ''/srv/secrets/key.pem'' (Content ''K1'')),
               (1100 :: nat, Write ''/srv/secrets/cert.pem'' Missing)]"
  let ?r = "advance example_world 2000 (run example_world ?evs example_state)"
  note g = atomicity_under_failure[of example_state_cert_missing example_world
      example_env 0 example_files]
  have 1: "readFileSync example_state_cert_missing (certPath example_world) =
     Inl (ENOENT ''/srv/secrets/cert.pem'')"
    by (rule example_cert_missing_reload(2))
  from g 1 have "server (reloadCallback example_world example_state_cert_missing) =
     server example_state_cert_missing"
    by blast
  then have 2: "server (reloadCallback example_world example_state_cert_missing) =
     HttpsServer ''K0'' ''C0''"
    by (simp add: example_cert_missing_reload)
  from g have 3: "server ?r = expectedServer (server example_state) ?r"
    unfolding example_state_def by blast
  have 4: "fired ?r = [1600] \<and> installs ?r = []"
    by (simp add: example_state_eq example_paths
      advance_def notify_def scheduleReload_def setTimeout_def clearTimeout_def
      reloadCallback_def readFileSync_def console_error_def example_files_def)
  have 5: "server ?r = HttpsServer ''K0'' ''C0''"
    using 3 4 by (simp add: expectedServer_def installed_def example_state_eq)
  from 1 2 4 5 show ?thesis by blast
qed

text \<open>
  Claim C5 (no partial pair). A reload attempt either calls no install and leaves the
  server as it was, or calls \<open>setSecureContext\<close> once, with the key and the certificate
  that the two reads of this very attempt returned; the server then holds exactly that
  pair if the call returned and its former pair if it threw. Nothing else calls the
  install: not \<open>scheduleReload\<close>, not the delivery of an event, and in every run after
  \<open>bootstrap\<close> there are at most as many install calls as reload attempts.
\<close>

theorem no_partial_pair:
  "((installs (reloadCallback w s) = installs s \<and> server (reloadCallback w s) = server s) \<or>
    (\<exists>key cert ok.
       readFileSync s (keyPath w) = Inr key \<and> readFileSync s (certPath w) = Inr cert \<and>
       installs (reloadCallback w s) = installs s @ [(key, cert, ok)] \<and>
       server (reloadCallback w s) = (if ok then HttpsServer key cert else server s))) \<and>
   installs (scheduleReload s) = installs s \<and> server (scheduleReload s) = server s \<and>
   installs (deliver ev s) = installs s \<and> server (deliver ev s) = server s \<and>
   length (installs (advance w T (run w evs (snd (bootstrap w e (initial t files)))))) \<le>
   length (fired (advance w T (run w evs (snd (bootstrap w e (initial t files))))))"
proof -
  have "length (installs (snd (bootstrap w e (initial t files)))) \<le>
        length (fired (snd (bootstrap w e (initial t files))))"
    by (simp add: bootstrap_installs)
  from installs_within_attempts[OF this, of w T evs] reloadCallback_cases[of w s]
  show ?thesis by (simp add: scheduleReload_frame deliver_frame)
qed

text \<open>The example with both files rewritten: the attempt installs the new key with the
  new certificate.\<close>

theorem no_partial_pair_witness:
  "installs (reloadCallback example_world example_state_rotated) = [(''K1'', ''C1'', True)] \<and>
   server (reloadCallback example_world example_state_rotated) = HttpsServer ''K1'' ''C1''"
proof -
  have i: "installs (reloadCallback example_world example_state_rotated) =
           [(''K1'', ''C1'', True)]"
    using reloadCallback_succeeds(2)[OF example_rotated_reload(1,2,3)]
    by (simp add: example_rotated_reload)
  note g = no_partial_pair[where w = example_world and s = example_state_rotated
      and ev = "Notify []" and T = 0 and evs = "[]" and e = example_env and t = 0
      and files = example_files]
  from g i example_rotated_reload(4)
  have "server (reloadCallback example_world example_state_rotated) = HttpsServer ''K1'' ''C1''"
    by auto
  with i show ?thesis by simp
qed

text \<open>
  Claim C6 as stated fails for an empty file: \<open>readFileSync\<close> returns the empty content
  without throwing, and the attempt goes on to the install step. Here the key file is
  empty; the read returns, and \<open>setSecureContext\<close> is called with the empty key.
\<close>

theorem loadPair_failure_condition_counterexample:
  "fs example_state_empty_key (keyPath example_world) = Content [] \<and>
   readFileSync example_state_empty_key (keyPath example_world) = Inr [] \<and>
   installs (reloadCallback example_world example_state_empty_key) = [([], ''C0'', False)]"
proof -
  have acc: "\<not> accepts example_world [] ''C0''" by (simp add: example_world_def)
  show ?thesis
    using acc
    by (simp add: example_state_empty_key_def example_state_eq example_paths
        reloadCallback_def readFileSync_def setSecureContext_def console_error_def
        example_files_def)
qed

text \<open>
  Claim C6, amended. A read of a reload attempt throws exactly when the file is missing
  or unreadable; an empty file is read without an exception, as empty content. When the
  read of the key or of the certificate throws, the attempt does not reach the install
  step and leaves the server as it was. When both files are present and readable, empty
  or not, the attempt reaches the install step with their contents.
\<close>

theorem loadPair_failure_condition:
  "((\<exists>err. readFileSync s p = Inl err) \<longleftrightarrow> fs s p = Missing \<or> fs s p = Unreadable) \<and>
   (fs s p = Content [] \<longrightarrow> readFileSync s p = Inr []) \<and>
   ((\<exists>err. readFileSync s (keyPath w) = Inl err) \<or>
    (\<exists>err. readFileSync s (certPath w) = Inl err) \<longrightarrow>
      installs (reloadCallback w s) = installs s \<and>
      server (reloadCallback w s) = server s) \<and>
   (\<forall>key cert. fs s (keyPath w) = Content key \<longrightarrow> fs s (certPath w) = Content cert \<longrightarrow>
      (\<exists>ok. installs (reloadCallback w s) = installs s @ [(key, cert, ok)]))"
proof -
  have a: "(\<exists>err. readFileSync s p = Inl err) \<longleftrightarrow> fs s p = Missing \<or> fs s p = Unreadable"
    by (simp add: readFileSync_def split: file_state.splits)
  have b: "fs s p = Content [] \<longrightarrow> readFileSync s p = Inr []"
    by (simp add: readFileSync_def)
  have c: "(\<exists>err. readFileSync s (keyPath w) = Inl err) \<or>
    (\<exists>err. readFileSync s (certPath w) = Inl err) \<longrightarrow>
      installs (reloadCallback w s) = installs s \<and>
      server (reloadCallback w s) = server s"
    using reloadCallback_read_fails(1,2)[of s w] by blast
  have d: "\<forall>key cert. fs s (keyPath w) = Content key \<longrightarrow> fs s (certPath w) = Content cert \<longrightarrow>
      (\<exists>ok. installs (reloadCallback w s) = installs s @ [(key, cert, ok)])"
    by (auto simp add: reloadCallback_def Let_def readFileSync_def setSecureContext_def
        console_simps split: sum.splits server.splits if_splits)
  show ?thesis using a b c d by blast
qed

text \<open>The example with the certificate deleted: the read throws and nothing is installed.
  With the key emptied: the install step is reached.\<close>

theorem loadPair_failure_condition_witness:
  "fs example_state_cert_missing (certPath example_world) = Missing \<and>
   readFileSync example_state_cert_missing (certPath example_world) =
     Inl (ENOENT ''/srv/secrets/cert.pem'') \<and>
   installs (reloadCallback example_world example_state_cert_missing) = [] \<and>
   fs example_state_empty_key (keyPath example_world) = Content [] \<and>
   fs example_state_empty_key (certPath example_world) = Content ''C0'' \<and>
   (\<exists>ok. installs (reloadCallback example_world example_state_empty_key) =
      [([], ''C0'', ok)])"
proof -
  note g = loadPair_failure_condition[of example_state_cert_missing
      "certPath example_world" example_world]
  note h = loadPair_failure_condition[of example_state_empty_key
      "keyPath example_world" example_world]
  have 1: "readFileSync example_state_cert_missing (certPath example_world) =
     Inl (ENOENT ''/srv/secrets/cert.pem'')"
    by (rule example_cert_missing_reload(2))
  from g 1 have 2: "fs example_state_cert_missing (certPath example_world) = Missing \<or>
     fs example_state_cert_missing (certPath example_world) = Unreadable"
    by blast
  have 3: "fs example_state_cert_missing (certPath example_world) = Missing"
    by (simp add: example_state_cert_missing_def example_state_eq example_paths)
  from g 1 have "installs (reloadCallback example_world example_state_cert_missing) =
     installs example_state_cert_missing"
    by blast
  then have 4: "installs (reloadCallback example_world example_state_cert_missing) = []"
    by (simp add: example_cert_missing_reload)
  from h example_empty_key_reload(1,2)
  have "\<exists>ok. installs (reloadCallback example_world example_state_empty_key) =
      installs example_state_empty_key @ [([], ''C0'', ok)]"
    by blast
  then have 5: "\<exists>ok. installs (reloadCallback example_world example_state_empty_key) =
      [([], ''C0'', ok)]"
    by (simp add: example_empty_key_reload)
  from 1 3 4 5 example_empty_key_reload(1,2) show ?thesis by blast
qed

text \<open>
  Claim C9 (reload observability). Each attempt calls the console once. A successful
  attempt prints the line of line 85, which includes the timestamp of the attempt. A
  failed attempt prints the line of line 87, the fixed text and the caught exception,
  and no piece of it is a timestamp: here the certificate is missing and the attempt
  prints one error line without one, while the attempt on the rewritten files prints its
  line with the timestamp.
\<close>

theorem reload_observability_divergence:
  "\<not> reloadSucceeds example_world example_state_cert_missing \<and>
   console (reloadCallback example_world example_state_cert_missing) =
     console example_state_cert_missing @
       [(Error, [Text ''[TLS] Failed to reload certificate:'',
                 Err (ENOENT ''/srv/secrets/cert.pem'')])] \<and>
   \<not> hasTimestamp (last (console (reloadCallback example_world example_state_cert_missing))) \<and>
   reloadSucceeds example_world example_state_rotated \<and>
   console (reloadCallback example_world example_state_rotated) =
     console example_state_rotated @
       [(Log, [Text ''[TLS] Reloaded certificate @ '', Timestamp 0])] \<and>
   hasTimestamp (last (console (reloadCallback example_world example_state_rotated)))"
proof -
  have a: "\<not> reloadSucceeds example_world example_state_cert_missing \<and>
   console (reloadCallback example_world example_state_cert_missing) =
     console example_state_cert_missing @
       [(Error, [Text ''[TLS] Failed to reload certificate:'',
                 Err (ENOENT ''/srv/secrets/cert.pem'')])] \<and>
   \<not> hasTimestamp (last (console (reloadCallback example_world example_state_cert_missing)))"
    by (simp add: reloadSucceeds_def reloadCallback_def example_state_cert_missing_def
        example_state_eq example_paths readFileSync_def console_error_def example_files_def
        hasTimestamp_def)
  have b: "reloadSucceeds example_world example_state_rotated"
    by (simp add: reloadSucceeds_def example_rotated_reload)
  have c: "console (reloadCallback example_world example_state_rotated) =
     console example_state_rotated @
       [(Log, [Text ''[TLS] Reloaded certificate @ '', Timestamp 0])]"
    using reloadCallback_succeeds(3)[OF example_rotated_reload(1,2,3)]
    by (simp add: example_rotated_reload)
  have d: "hasTimestamp (last (console (reloadCallback example_world example_state_rotated)))"
    by (simp add: c hasTimestamp_def)
  from a b c d show ?thesis by blast
qed

end
